theory Spec2Isabelle
  imports Complex_Main
begin

section \<open>Errors\<close>

text \<open>
  Every exception the Python source or the tensor library can raise is a value.
  \<open>AssertionError\<close> carries the message of the failed \<open>assert\<close>.
\<close>

datatype error =
    AssertionError string
  | ZeroDivisionError
  | ValueError
  | IndexError
  | RuntimeError

section \<open>Floating-point values\<close>

text \<open>
  A tensor element is a finite number, one of the two infinities or NaN. Finite values
  are idealised as reals: rounding, overflow and signed zeros are not modelled. The
  special values follow IEEE 754, with zero taken as positive.
\<close>

datatype fl = Fin real | PInf | NInf | NaN

fun fneg :: "fl \<Rightarrow> fl" where
  "fneg (Fin a) = Fin (- a)"
| "fneg PInf = NInf"
| "fneg NInf = PInf"
| "fneg NaN = NaN"

fun fadd :: "fl \<Rightarrow> fl \<Rightarrow> fl" where
  "fadd NaN _ = NaN"
| "fadd _ NaN = NaN"
| "fadd PInf NInf = NaN"
| "fadd NInf PInf = NaN"
| "fadd PInf _ = PInf"
| "fadd _ PInf = PInf"
| "fadd NInf _ = NInf"
| "fadd _ NInf = NInf"
| "fadd (Fin a) (Fin b) = Fin (a + b)"

definition fsub :: "fl \<Rightarrow> fl \<Rightarrow> fl" where
  "fsub a b = fadd a (fneg b)"

definition inf_of_sign :: "bool \<Rightarrow> fl" where
  "inf_of_sign negative = (if negative then NInf else PInf)"

fun fl_negative :: "fl \<Rightarrow> bool" where
  "fl_negative (Fin a) = (a < 0)"
| "fl_negative NInf = True"
| "fl_negative _ = False"

fun fmul :: "fl \<Rightarrow> fl \<Rightarrow> fl" where
  "fmul NaN _ = NaN"
| "fmul _ NaN = NaN"
| "fmul (Fin a) (Fin b) = Fin (a * b)"
| "fmul (Fin a) y = (if a = 0 then NaN else inf_of_sign ((a < 0) \<noteq> fl_negative y))"
| "fmul x (Fin b) = (if b = 0 then NaN else inf_of_sign (fl_negative x \<noteq> (b < 0)))"
| "fmul x y = inf_of_sign (fl_negative x \<noteq> fl_negative y)"

fun fdiv :: "fl \<Rightarrow> fl \<Rightarrow> fl" where
  "fdiv NaN _ = NaN"
| "fdiv _ NaN = NaN"
| "fdiv (Fin a) (Fin b) =
     (if b = 0 then (if a = 0 then NaN else inf_of_sign (a < 0)) else Fin (a / b))"
| "fdiv (Fin a) y = Fin 0"
| "fdiv x (Fin b) = inf_of_sign (fl_negative x \<noteq> (b < 0))"
| "fdiv x y = NaN"

fun fexp :: "fl \<Rightarrow> fl" where
  "fexp (Fin a) = Fin (exp a)"
| "fexp PInf = PInf"
| "fexp NInf = Fin 0"
| "fexp NaN = NaN"

fun fsqrt :: "fl \<Rightarrow> fl" where
  "fsqrt (Fin a) = (if a < 0 then NaN else Fin (sqrt a))"
| "fsqrt PInf = PInf"
| "fsqrt NInf = NaN"
| "fsqrt NaN = NaN"

fun fsin :: "fl \<Rightarrow> fl" where
  "fsin (Fin a) = Fin (sin a)"
| "fsin _ = NaN"

fun fcos :: "fl \<Rightarrow> fl" where
  "fcos (Fin a) = Fin (cos a)"
| "fcos _ = NaN"

fun frelu :: "fl \<Rightarrow> fl" where
  "frelu (Fin a) = Fin (max 0 a)"
| "frelu PInf = PInf"
| "frelu NInf = Fin 0"
| "frelu NaN = NaN"

fun fmax :: "fl \<Rightarrow> fl \<Rightarrow> fl" where
  "fmax NaN _ = NaN"
| "fmax _ NaN = NaN"
| "fmax PInf _ = PInf"
| "fmax _ PInf = PInf"
| "fmax NInf y = y"
| "fmax x NInf = x"
| "fmax (Fin a) (Fin b) = Fin (max a b)"

text \<open>Sum and maximum of \<open>f 0, ..., f (n - 1)\<close>, accumulated from the left.\<close>

definition fsum :: "(nat \<Rightarrow> fl) \<Rightarrow> nat \<Rightarrow> fl" where
  "fsum f n = foldl (\<lambda>acc k. fadd acc (f k)) (Fin 0) [0..<n]"

definition fmaximum :: "(nat \<Rightarrow> fl) \<Rightarrow> nat \<Rightarrow> fl" where
  "fmaximum f n = foldl (\<lambda>acc k. fmax acc (f k)) NInf [0..<n]"

text \<open>
  \<open>torch.finfo(torch.float32).min\<close>, the most negative finite value of the default
  dtype (the source creates every parameter with the default dtype and never casts).
\<close>

definition finfo_min :: real where
  "finfo_min = - ((2 - 1 / 2 ^ 23) * 2 ^ 127)"

section \<open>Tensors\<close>

text \<open>
  A tensor is its shape and its element at each multi-index. Only the elements at
  indices inside the shape are meaningful. Memory layout (strides, contiguity) is not
  modelled: \<open>contiguous\<close> changes no value.
\<close>

record 'a tensor =
  shape :: "nat list"
  elem :: "nat list \<Rightarrow> 'a"

definition numel :: "nat list \<Rightarrow> nat" where
  "numel sh = prod_list sh"

text \<open>Row-major offset of a multi-index, and the multi-index of an offset.\<close>

fun ravel :: "nat list \<Rightarrow> nat list \<Rightarrow> nat" where
  "ravel [] idx = 0"
| "ravel (s # sh) [] = 0"
| "ravel (s # sh) (i # idx) = i * numel sh + ravel sh idx"

fun unravel :: "nat list \<Rightarrow> nat \<Rightarrow> nat list" where
  "unravel [] n = []"
| "unravel (s # sh) n = (n div numel sh) # unravel sh (n mod numel sh)"

definition contiguous :: "'a tensor \<Rightarrow> 'a tensor" where
  "contiguous t = t"

text \<open>
  \<open>Tensor.view\<close>: the same row-major sequence of elements under a new shape. One size
  may be \<open>-1\<close> and is then inferred from the number of elements.
\<close>

definition view_shape :: "nat \<Rightarrow> int list \<Rightarrow> error + nat list" where
  "view_shape n sizes =
     (if \<exists>z \<in> set sizes. z < - 1 then Inl RuntimeError
      else if length (filter (\<lambda>z. z = - 1) sizes) > 1 then Inl RuntimeError
      else if - 1 \<in> set sizes then
        (let p = numel (map nat (filter (\<lambda>z. z \<noteq> - 1) sizes))
         in if p = 0 \<or> n mod p \<noteq> 0 then Inl RuntimeError
            else Inr (map (\<lambda>z. if z = - 1 then n div p else nat z) sizes))
      else if numel (map nat sizes) \<noteq> n then Inl RuntimeError
      else Inr (map nat sizes))"

definition view :: "'a tensor \<Rightarrow> int list \<Rightarrow> error + 'a tensor" where
  "view t sizes =
     (case view_shape (numel (shape t)) sizes of
        Inl e \<Rightarrow> Inl e
      | Inr sh \<Rightarrow> Inr \<lparr>shape = sh, elem = (\<lambda>idx. elem t (unravel (shape t) (ravel sh idx)))\<rparr>)"

text \<open>A dimension argument counts from the end when negative.\<close>

definition norm_dim :: "nat \<Rightarrow> int \<Rightarrow> error + nat" where
  "norm_dim r d =
     (if 0 \<le> d \<and> d < int r then Inr (nat d)
      else if - int r \<le> d \<and> d < 0 then Inr (nat (int r + d))
      else Inl IndexError)"

definition swap :: "'a list \<Rightarrow> nat \<Rightarrow> nat \<Rightarrow> 'a list" where
  "swap xs i j = xs[i := xs ! j, j := xs ! i]"

definition transpose_t :: "'a tensor \<Rightarrow> int \<Rightarrow> int \<Rightarrow> error + 'a tensor" where
  "transpose_t t d0 d1 =
     (case norm_dim (length (shape t)) d0 of
        Inl e \<Rightarrow> Inl e
      | Inr i \<Rightarrow>
          (case norm_dim (length (shape t)) d1 of
             Inl e \<Rightarrow> Inl e
           | Inr j \<Rightarrow> Inr \<lparr>shape = swap (shape t) i j, elem = (\<lambda>idx. elem t (swap idx i j))\<rparr>))"

text \<open>\<open>Tensor.unsqueeze\<close> inserts a dimension of size one.\<close>

definition unsqueeze :: "'a tensor \<Rightarrow> int \<Rightarrow> error + 'a tensor" where
  "unsqueeze t d =
     (case norm_dim (Suc (length (shape t))) d of
        Inl e \<Rightarrow> Inl e
      | Inr i \<Rightarrow>
          Inr \<lparr>shape = take i (shape t) @ [1] @ drop i (shape t),
               elem = (\<lambda>idx. elem t (take i idx @ drop (Suc i) idx))\<rparr>)"

text \<open>
  Broadcasting aligns shapes at the last dimension; two sizes are compatible when they
  are equal or one of them is one. An operand reads its own element at the result's
  index, with every broadcast dimension read at zero.
\<close>

definition bdim :: "nat \<Rightarrow> nat \<Rightarrow> nat option" where
  "bdim a b = (if a = b then Some a else if a = 1 then Some b else if b = 1 then Some a else None)"

fun bshape_rev :: "nat list \<Rightarrow> nat list \<Rightarrow> nat list option" where
  "bshape_rev [] ys = Some ys"
| "bshape_rev xs [] = Some xs"
| "bshape_rev (x # xs) (y # ys) =
     (case bdim x y of
        None \<Rightarrow> None
      | Some d \<Rightarrow> (case bshape_rev xs ys of None \<Rightarrow> None | Some ds \<Rightarrow> Some (d # ds)))"

definition broadcast_shapes :: "nat list \<Rightarrow> nat list \<Rightarrow> nat list option" where
  "broadcast_shapes a b = map_option rev (bshape_rev (rev a) (rev b))"

definition bidx :: "nat list \<Rightarrow> nat list \<Rightarrow> nat list" where
  "bidx sh idx = map2 (\<lambda>d i. if d = 1 then 0 else i) sh (drop (length idx - length sh) idx)"

definition bop :: "('a \<Rightarrow> 'b \<Rightarrow> 'c) \<Rightarrow> 'a tensor \<Rightarrow> 'b tensor \<Rightarrow> error + 'c tensor" where
  "bop f a b =
     (case broadcast_shapes (shape a) (shape b) of
        None \<Rightarrow> Inl RuntimeError
      | Some sh \<Rightarrow>
          Inr \<lparr>shape = sh,
               elem = (\<lambda>idx. f (elem a (bidx (shape a) idx)) (elem b (bidx (shape b) idx)))\<rparr>)"

definition tmap :: "('a \<Rightarrow> 'b) \<Rightarrow> 'a tensor \<Rightarrow> 'b tensor" where
  "tmap f t = \<lparr>shape = shape t, elem = (\<lambda>idx. f (elem t idx))\<rparr>"

text \<open>
  \<open>Tensor.expand\<close>: a dimension of size one is replicated to the requested size, new
  leading dimensions may be added, \<open>-1\<close> keeps a size; any other mismatch is an error.
\<close>

fun expand_rev :: "nat list \<Rightarrow> int list \<Rightarrow> nat list option" where
  "expand_rev [] [] = Some []"
| "expand_rev [] (z # zs) =
     (if z < 0 then None
      else (case expand_rev [] zs of None \<Rightarrow> None | Some ds \<Rightarrow> Some (nat z # ds)))"
| "expand_rev (s # ss) [] = None"
| "expand_rev (s # ss) (z # zs) =
     (if z = - 1 \<or> z = int s then
        (case expand_rev ss zs of None \<Rightarrow> None | Some ds \<Rightarrow> Some (s # ds))
      else if s = 1 \<and> 0 \<le> z then
        (case expand_rev ss zs of None \<Rightarrow> None | Some ds \<Rightarrow> Some (nat z # ds))
      else None)"

definition expand :: "'a tensor \<Rightarrow> int list \<Rightarrow> error + 'a tensor" where
  "expand t sizes =
     (case expand_rev (rev (shape t)) (rev sizes) of
        None \<Rightarrow> Inl RuntimeError
      | Some ds \<Rightarrow> Inr \<lparr>shape = rev ds, elem = (\<lambda>idx. elem t (bidx (shape t) idx))\<rparr>)"

section \<open>Library operations\<close>

definition and_then :: "error + 'a \<Rightarrow> ('a \<Rightarrow> error + 'b) \<Rightarrow> error + 'b" where
  "and_then m f = (case m of Inl e \<Rightarrow> Inl e | Inr v \<Rightarrow> f v)"

text \<open>\<open>t.shape[i]\<close> for a non-negative literal \<open>i\<close>.\<close>

definition shape_at :: "'a tensor \<Rightarrow> nat \<Rightarrow> error + nat" where
  "shape_at t i = (if i < length (shape t) then Inr (shape t ! i) else Inl IndexError)"

text \<open>\<open>math.sqrt\<close> of a Python integer raises on a negative argument.\<close>

definition math_sqrt :: "int \<Rightarrow> error + real" where
  "math_sqrt d = (if d < 0 then Inl ValueError else Inr (sqrt (real_of_int d)))"

text \<open>Division of a tensor by a Python float.\<close>

definition div_scalar :: "fl tensor \<Rightarrow> real \<Rightarrow> fl tensor" where
  "div_scalar t s = tmap (\<lambda>x. fdiv x (Fin s)) t"

definition mul_scalar :: "fl tensor \<Rightarrow> real \<Rightarrow> fl tensor" where
  "mul_scalar t s = tmap (\<lambda>x. fmul x (Fin s)) t"

text \<open>
  \<open>nn.Linear\<close>: the weight has shape \<open>[out_features, in_features]\<close>, the bias (when
  present) shape \<open>[out_features]\<close>; the last dimension of the input is contracted.
\<close>

record linear_mod =
  weight :: "fl tensor"
  bias :: "fl tensor option"

definition linear :: "linear_mod \<Rightarrow> fl tensor \<Rightarrow> error + fl tensor" where
  "linear m x =
     (case shape (weight m) of
        [out, inn] \<Rightarrow>
          if shape x = [] \<or> last (shape x) \<noteq> inn then Inl RuntimeError
          else Inr \<lparr>shape = butlast (shape x) @ [out],
                    elem = (\<lambda>idx.
                      let s = fsum (\<lambda>i. fmul (elem x (butlast idx @ [i]))
                                               (elem (weight m) [last idx, i])) inn
                      in (case bias m of None \<Rightarrow> s | Some b \<Rightarrow> fadd s (elem b [last idx])))\<rparr>
      | _ \<Rightarrow> Inl RuntimeError)"

text \<open>
  \<open>torch.matmul\<close>. The core is the batched product of two tensors of rank at least
  two, whose leading (batch) dimensions broadcast.
\<close>

definition matmul_batched :: "fl tensor \<Rightarrow> fl tensor \<Rightarrow> error + fl tensor" where
  "matmul_batched a b =
     (let ra = length (shape a); rb = length (shape b)
      in if ra < 2 \<or> rb < 2 then Inl RuntimeError
         else
           (let ba = take (ra - 2) (shape a); bb = take (rb - 2) (shape b);
                n = shape a ! (ra - 2); m = shape a ! (ra - 1);
                m' = shape b ! (rb - 2); p = shape b ! (rb - 1)
            in if m \<noteq> m' then Inl RuntimeError
               else
                 (case broadcast_shapes ba bb of
                    None \<Rightarrow> Inl RuntimeError
                  | Some bs \<Rightarrow>
                      Inr \<lparr>shape = bs @ [n, p],
                           elem = (\<lambda>idx.
                             let r = length idx; bi = take (r - 2) idx;
                                 i = idx ! (r - 2); j = idx ! (r - 1)
                             in fsum (\<lambda>k. fmul (elem a (bidx ba bi @ [i, k]))
                                                  (elem b (bidx bb bi @ [k, j]))) m)\<rparr>)))"

text \<open>
  An operand of rank one is a row vector on the left and a column vector on the right:
  a dimension of size one is added for the product and removed from the result. An
  operand of rank zero is an error.
\<close>

definition as_row :: "'a tensor \<Rightarrow> 'a tensor" where
  "as_row t = \<lparr>shape = 1 # shape t, elem = (\<lambda>idx. elem t (tl idx))\<rparr>"

definition as_column :: "'a tensor \<Rightarrow> 'a tensor" where
  "as_column t = \<lparr>shape = shape t @ [1], elem = (\<lambda>idx. elem t (butlast idx))\<rparr>"

definition drop_row_dim :: "'a tensor \<Rightarrow> 'a tensor" where
  "drop_row_dim t =
     \<lparr>shape = take (length (shape t) - 2) (shape t) @ [last (shape t)],
      elem = (\<lambda>idx. elem t (butlast idx @ [0, last idx]))\<rparr>"

definition drop_last_dim :: "'a tensor \<Rightarrow> 'a tensor" where
  "drop_last_dim t = \<lparr>shape = butlast (shape t), elem = (\<lambda>idx. elem t (idx @ [0]))\<rparr>"

definition matmul :: "fl tensor \<Rightarrow> fl tensor \<Rightarrow> error + fl tensor" where
  "matmul a b =
     (let ra = length (shape a); rb = length (shape b)
      in if ra = 0 \<or> rb = 0 then Inl RuntimeError
         else
           (case matmul_batched (if ra = 1 then as_row a else a)
                                (if rb = 1 then as_column b else b) of
              Inl e \<Rightarrow> Inl e
            | Inr c \<Rightarrow>
                (let c1 = (if ra = 1 then drop_row_dim c else c)
                 in Inr (if rb = 1 then drop_last_dim c1 else c1))))"

text \<open>Size of, and positions along, the last dimension (a scalar counts as one element).\<close>

definition lastdim :: "nat list \<Rightarrow> nat" where
  "lastdim sh = (if sh = [] then 1 else last sh)"

definition at_last :: "nat list \<Rightarrow> nat \<Rightarrow> nat list" where
  "at_last idx k = (if idx = [] then [] else butlast idx @ [k])"

definition keep_shape :: "nat list \<Rightarrow> nat list" where
  "keep_shape sh = (if sh = [] then [] else butlast sh @ [1])"

text \<open>
  \<open>softmax(dim=-1)\<close>, computed as the library does: the row maximum is subtracted
  before exponentiating, so a row of \<open>-inf\<close> only yields NaN.
\<close>

definition softmax :: "fl tensor \<Rightarrow> fl tensor" where
  "softmax t =
     \<lparr>shape = shape t,
      elem = (\<lambda>idx.
        let n = lastdim (shape t);
            row = (\<lambda>k. elem t (at_last idx k));
            mx = fmaximum row n;
            e = (\<lambda>k. fexp (fsub (row k) mx))
        in fdiv (fexp (fsub (elem t idx) mx)) (fsum e n))\<rparr>"

text \<open>
  \<open>masked_fill\<close> broadcasts tensor and mask against each other; the in-place
  \<open>masked_fill_\<close> needs the mask to broadcast to the shape of the tensor itself.
\<close>

definition masked_fill :: "fl tensor \<Rightarrow> bool tensor \<Rightarrow> fl \<Rightarrow> error + fl tensor" where
  "masked_fill t msk v = bop (\<lambda>x m. if m then v else x) t msk"

definition masked_fill_inplace :: "fl tensor \<Rightarrow> bool tensor \<Rightarrow> fl \<Rightarrow> error + fl tensor" where
  "masked_fill_inplace t msk v =
     (if broadcast_shapes (shape t) (shape msk) = Some (shape t) then masked_fill t msk v
      else Inl RuntimeError)"

text \<open>
  \<open>nn.Dropout\<close>. The Bernoulli sample drawn by the call is the explicit field
  \<open>keep\<close>. Outside training mode and for rate zero the input is returned; for rate one
  it is multiplied by zero.
\<close>

record dropout_mod =
  drop_p :: real
  training :: bool
  keep :: "nat list \<Rightarrow> bool"

definition dropout :: "dropout_mod \<Rightarrow> fl tensor \<Rightarrow> fl tensor" where
  "dropout d x =
     (if \<not> training d \<or> drop_p d = 0 then x
      else if drop_p d = 1 then tmap (\<lambda>v. fmul v (Fin 0)) x
      else \<lparr>shape = shape x,
            elem = (\<lambda>idx. fmul (elem x idx)
                             (Fin (if keep d idx then 1 / (1 - drop_p d) else 0)))\<rparr>)"

text \<open>\<open>mean\<close> and population variance (\<open>unbiased=False\<close>) over the last dimension, \<open>keepdim=True\<close>.\<close>

definition mean_last :: "fl tensor \<Rightarrow> fl tensor" where
  "mean_last t =
     \<lparr>shape = keep_shape (shape t),
      elem = (\<lambda>idx. let n = lastdim (shape t)
                     in fdiv (fsum (\<lambda>k. elem t (at_last idx k)) n) (Fin (real n)))\<rparr>"

definition var_last :: "fl tensor \<Rightarrow> fl tensor" where
  "var_last t =
     \<lparr>shape = keep_shape (shape t),
      elem = (\<lambda>idx.
        let n = lastdim (shape t);
            mu = fdiv (fsum (\<lambda>k. elem t (at_last idx k)) n) (Fin (real n));
            dev = (\<lambda>k. fsub (elem t (at_last idx k)) mu)
        in fdiv (fsum (\<lambda>k. fmul (dev k) (dev k)) n) (Fin (real n)))\<rparr>"

text \<open>All multi-indices of a shape, in row-major order.\<close>

fun all_indices :: "nat list \<Rightarrow> nat list list" where
  "all_indices [] = [[]]"
| "all_indices (s # sh) = concat (map (\<lambda>i. map ((#) i) (all_indices sh)) [0..<s])"

text \<open>\<open>nn.Embedding\<close>: a row of the table per token id; an id outside the table is an error.\<close>

definition embedding :: "fl tensor \<Rightarrow> int tensor \<Rightarrow> error + fl tensor" where
  "embedding w x =
     (case shape w of
        [v, d] \<Rightarrow>
          if \<exists>idx \<in> set (all_indices (shape x)). elem x idx < 0 \<or> int v \<le> elem x idx
          then Inl IndexError
          else Inr \<lparr>shape = shape x @ [d],
                    elem = (\<lambda>idx. elem w [nat (elem x (butlast idx)), last idx])\<rparr>
      | _ \<Rightarrow> Inl RuntimeError)"

section \<open>PositionalEncoding\<close>

record positional_encoding =
  pe_d_model :: int
  pe_seq_len :: int
  pe_dropout :: dropout_mod
  pe :: "fl tensor"

text \<open>\<open>nn.Dropout(p)\<close> rejects a rate outside \<open>[0, 1]\<close>; a new module is in training mode.\<close>

definition Dropout_init :: "real \<Rightarrow> (nat list \<Rightarrow> bool) \<Rightarrow> error + dropout_mod" where
  "Dropout_init p sample =
     (if p < 0 \<or> 1 < p then Inl ValueError
      else Inr \<lparr>drop_p = p, training = True, keep = sample\<rparr>)"

text \<open>\<open>torch.zeros\<close>, \<open>torch.ones\<close> and \<open>torch.empty\<close> reject a negative size.\<close>

definition full :: "int list \<Rightarrow> 'a \<Rightarrow> error + 'a tensor" where
  "full sizes v =
     (if \<exists>z \<in> set sizes. z < 0 then Inl RuntimeError
      else Inr \<lparr>shape = map nat sizes, elem = (\<lambda>idx. v)\<rparr>)"

text \<open>\<open>torch.arange(0, n, step)\<close> as floats, for a non-negative \<open>n\<close>.\<close>

definition arange :: "nat \<Rightarrow> nat \<Rightarrow> fl tensor" where
  "arange n step =
     \<lparr>shape = [(n + step - 1) div step], elem = (\<lambda>idx. Fin (real (step * hd idx)))\<rparr>"

text \<open>
  \<open>t[:, start::2] = src\<close> on a matrix \<open>t\<close>: the value must broadcast to the shape of
  the selected columns.
\<close>

definition assign_cols :: "fl tensor \<Rightarrow> nat \<Rightarrow> fl tensor \<Rightarrow> error + fl tensor" where
  "assign_cols t start src =
     (case shape t of
        [rows, cols] \<Rightarrow>
          (case expand src [int rows, int ((cols - start + 1) div 2)] of
             Inl e \<Rightarrow> Inl e
           | Inr src' \<Rightarrow>
               Inr \<lparr>shape = [rows, cols],
                    elem = (\<lambda>idx.
                      let c = idx ! 1
                      in if start \<le> c \<and> (c - start) mod 2 = 0
                         then elem src' [idx ! 0, (c - start) div 2]
                         else elem t idx)\<rparr>)
      | _ \<Rightarrow> Inl IndexError)"

definition PositionalEncoding_init ::
  "int \<Rightarrow> int \<Rightarrow> real \<Rightarrow> (nat list \<Rightarrow> bool) \<Rightarrow> error + positional_encoding" where
  "PositionalEncoding_init d_model seq_len p sample =
     and_then (Dropout_init p sample) (\<lambda>dr.
     and_then (full [seq_len, d_model] (Fin 0)) (\<lambda>pe0.
     and_then (unsqueeze (arange (nat seq_len) 1) 1) (\<lambda>position.
     if d_model = 0 then Inl ZeroDivisionError
     else
       (let div_term = tmap fexp (mul_scalar (arange (nat d_model) 2)
                                    (- (ln 1000 / real_of_int d_model)))
        in
     and_then (bop fmul position div_term) (\<lambda>angle.
     and_then (assign_cols pe0 0 (tmap fsin angle)) (\<lambda>pe1.
     and_then (assign_cols pe1 1 (tmap fcos angle)) (\<lambda>pe2.
     and_then (unsqueeze pe2 0) (\<lambda>pe3.
     Inr \<lparr>pe_d_model = d_model, pe_seq_len = seq_len, pe_dropout = dr, pe = pe3\<rparr>))))))))"

text \<open>\<open>t[:, :n, :]\<close> on a tensor of rank three: the slice stops at the end of the dimension.\<close>

definition slice_dim1 :: "'a tensor \<Rightarrow> nat \<Rightarrow> error + 'a tensor" where
  "slice_dim1 t n =
     (case shape t of
        [a, l, d] \<Rightarrow> Inr \<lparr>shape = [a, min n l, d], elem = elem t\<rparr>
      | _ \<Rightarrow> Inl IndexError)"

definition PositionalEncoding_forward :: "positional_encoding \<Rightarrow> fl tensor \<Rightarrow> error + fl tensor" where
  "PositionalEncoding_forward m x =
     and_then (shape_at x 1) (\<lambda>t.
     and_then (slice_dim1 (pe m) t) (\<lambda>sl.
     and_then (bop fadd x sl) (\<lambda>y.
     Inr (dropout (pe_dropout m) y))))"

section \<open>LayerNormalization\<close>

record layer_norm =
  ln_eps :: real
  ln_alpha :: "fl tensor"
  ln_bias :: "fl tensor"

definition LayerNormalization_init :: "int \<Rightarrow> real \<Rightarrow> error + layer_norm" where
  "LayerNormalization_init features eps =
     and_then (full [features] (Fin 1)) (\<lambda>a.
     and_then (full [features] (Fin 0)) (\<lambda>b.
     Inr \<lparr>ln_eps = eps, ln_alpha = a, ln_bias = b\<rparr>))"

definition LayerNormalization_forward :: "layer_norm \<Rightarrow> fl tensor \<Rightarrow> error + fl tensor" where
  "LayerNormalization_forward m x =
     (let mean = mean_last x; var = var_last x
      in
     and_then (bop fsub x mean) (\<lambda>centred.
     and_then (bop fdiv centred (tmap fsqrt (tmap (\<lambda>v. fadd v (Fin (ln_eps m))) var))) (\<lambda>normed.
     and_then (bop fmul (ln_alpha m) normed) (\<lambda>scaled.
     bop fadd scaled (ln_bias m)))))"

section \<open>FeedForwardBlock\<close>

record feed_forward_block =
  linear1 :: linear_mod
  ff_dropout :: dropout_mod
  linear2 :: linear_mod

definition FeedForwardBlock_forward :: "feed_forward_block \<Rightarrow> fl tensor \<Rightarrow> error + fl tensor" where
  "FeedForwardBlock_forward m x =
     and_then (linear (linear1 m) x) (\<lambda>y.
     linear (linear2 m) (dropout (ff_dropout m) (tmap frelu y)))"

section \<open>ResidualConnection\<close>

record residual_connection =
  rc_dropout :: dropout_mod
  rc_norm :: layer_norm

definition ResidualConnection_forward ::
  "residual_connection \<Rightarrow> fl tensor \<Rightarrow> (fl tensor \<Rightarrow> error + fl tensor) \<Rightarrow> error + fl tensor" where
  "ResidualConnection_forward m x sublayer =
     and_then (LayerNormalization_forward (rc_norm m) x) (\<lambda>n.
     and_then (sublayer n) (\<lambda>y.
     bop fadd x (dropout (rc_dropout m) y)))"

section \<open>MultiHeadAttentionBlock\<close>

record multi_head_attention_block =
  m_d_model :: int
  m_h :: int
  m_d_k :: int
  m_w_q :: linear_mod
  m_w_k :: linear_mod
  m_w_v :: linear_mod
  m_w_o :: linear_mod
  m_dropout :: dropout_mod

text \<open>
  The scores of the dense variant after scaling and masking, before the softmax
  (lines 73 to 79 of the source): a null mask leaves the scores as they are.
\<close>

definition attention_masked_scores ::
  "fl tensor \<Rightarrow> fl tensor \<Rightarrow> bool tensor option \<Rightarrow> error + fl tensor" where
  "attention_masked_scores query key msk =
     and_then (shape_at query (length (shape query) - 1)) (\<lambda>d_k.
     and_then (transpose_t key (- 2) (- 1)) (\<lambda>key_t.
     and_then (matmul query key_t) (\<lambda>prod.
     and_then (math_sqrt (int d_k)) (\<lambda>root.
     (let attention_scores = div_scalar prod root
      in (case msk of
            None \<Rightarrow> Inr attention_scores
          | Some mk \<Rightarrow> masked_fill_inplace attention_scores (tmap Not mk) (Fin finfo_min)))))))"

definition attention ::
  "fl tensor \<Rightarrow> fl tensor \<Rightarrow> fl tensor \<Rightarrow> bool tensor option \<Rightarrow> dropout_mod option
     \<Rightarrow> error + (fl tensor \<times> fl tensor)" where
  "attention query key val msk dr =
     and_then (attention_masked_scores query key msk) (\<lambda>masked.
     (let soft = softmax masked;
          attention_scores = (case dr of None \<Rightarrow> soft | Some d \<Rightarrow> dropout d soft)
      in and_then (matmul attention_scores val) (\<lambda>out. Inr (out, attention_scores))))"

text \<open>
  \<open>t.view(t.shape[0], t.shape[1], h, d_k).transpose(1, 2)\<close>, the split into heads of
  the dense block (lines 95 to 97).
\<close>

definition split_heads :: "fl tensor \<Rightarrow> int \<Rightarrow> int \<Rightarrow> error + fl tensor" where
  "split_heads t h d_k =
     and_then (shape_at t 0) (\<lambda>b.
     and_then (shape_at t 1) (\<lambda>n.
     and_then (view t [int b, int n, h, d_k]) (\<lambda>t4.
     transpose_t t4 1 2)))"

text \<open>
  \<open>x.transpose(1, 2).contiguous().view(x.shape[0], -1, h * d_k)\<close>, the merge of the
  heads in the dense block (line 104).
\<close>

definition merge_heads :: "fl tensor \<Rightarrow> int \<Rightarrow> int \<Rightarrow> error + fl tensor" where
  "merge_heads x h d_k =
     and_then (transpose_t x 1 2) (\<lambda>xt.
     and_then (shape_at x 0) (\<lambda>b.
     view (contiguous xt) [int b, - 1, h * d_k]))"

definition MultiHeadAttentionBlock_forward ::
  "multi_head_attention_block \<Rightarrow> fl tensor \<Rightarrow> fl tensor \<Rightarrow> fl tensor \<Rightarrow> bool tensor option
     \<Rightarrow> error + fl tensor" where
  "MultiHeadAttentionBlock_forward m q k v msk =
     and_then (linear (m_w_q m) q) (\<lambda>query.
     and_then (linear (m_w_k m) k) (\<lambda>key.
     and_then (linear (m_w_v m) v) (\<lambda>val.
     and_then (split_heads query (m_h m) (m_d_k m)) (\<lambda>query.
     and_then (split_heads key (m_h m) (m_d_k m)) (\<lambda>key.
     and_then (split_heads val (m_h m) (m_d_k m)) (\<lambda>val.
     and_then (attention query key val msk (Some (m_dropout m))) (\<lambda>(x, attention_scores).
     and_then (merge_heads x (m_h m) (m_d_k m)) (\<lambda>x.
     linear (m_w_o m) x))))))))"

section \<open>Sparse mask\<close>

text \<open>
  Modelled from the spec: \<open>create_sparse_mask\<close> is imported from the module
  \<open>utils\<close>, which is not among the sources. The spec (section 4.3) gives the pattern:
  a query position attends to every key position in its own contiguous block of
  \<open>block_size\<close> positions, and to the key positions at offsets that are multiples of
  \<open>stride\<close> from it; under \<open>causal\<close> the pattern is intersected with the
  lower-triangular mask, which removes every key position greater than the query
  position. The result has shape \<open>(1, 1, T, T)\<close>, as the call site notes.
\<close>

definition same_block :: "int \<Rightarrow> nat \<Rightarrow> nat \<Rightarrow> bool" where
  "same_block block_size q k = (int q div block_size = int k div block_size)"

definition strided :: "int \<Rightarrow> nat \<Rightarrow> nat \<Rightarrow> bool" where
  "strided stride q k = ((int q - int k) mod stride = 0)"

definition lower_triangular :: "nat \<Rightarrow> nat \<Rightarrow> bool" where
  "lower_triangular q k = (k \<le> q)"

definition create_sparse_mask :: "nat \<Rightarrow> int \<Rightarrow> int \<Rightarrow> bool \<Rightarrow> bool tensor" where
  "create_sparse_mask seq_len block_size stride causal =
     \<lparr>shape = [1, 1, seq_len, seq_len],
      elem = (\<lambda>idx.
        let q = idx ! 2; k = idx ! 3;
            pattern = (same_block block_size q k \<or> strided stride q k)
        in if causal then pattern \<and> lower_triangular q k else pattern)\<rparr>"

section \<open>SparseMultiHeadAttentionBlock\<close>

record sparse_multi_head_attention_block =
  s_d_model :: int
  s_h :: int
  s_d_k :: int
  s_block_size :: int
  s_stride :: int
  s_causal :: bool
  s_w_q :: linear_mod
  s_w_k :: linear_mod
  s_w_v :: linear_mod
  s_w_o :: linear_mod
  s_dropout :: dropout_mod

text \<open>
  \<open>w(x).view(B, T, h, d_k).transpose(1, 2)\<close>, one line of \<open>compute_qkv\<close>: the
  projection, then the split into heads.
\<close>

definition split_heads_sparse :: "fl tensor \<Rightarrow> nat \<Rightarrow> nat \<Rightarrow> int \<Rightarrow> int \<Rightarrow> error + fl tensor" where
  "split_heads_sparse y b t h d_k =
     and_then (view y [int b, int t, h, d_k]) (\<lambda>y4.
     transpose_t y4 1 2)"

definition project_heads ::
  "linear_mod \<Rightarrow> fl tensor \<Rightarrow> nat \<Rightarrow> nat \<Rightarrow> int \<Rightarrow> int \<Rightarrow> error + fl tensor" where
  "project_heads w x b t h d_k =
     and_then (linear w x) (\<lambda>y. split_heads_sparse y b t h d_k)"

definition compute_qkv ::
  "sparse_multi_head_attention_block \<Rightarrow> fl tensor \<Rightarrow> error + (fl tensor \<times> fl tensor \<times> fl tensor)" where
  "compute_qkv m x =
     (case shape x of
        [b, t, d] \<Rightarrow>
          and_then (project_heads (s_w_q m) x b t (s_h m) (s_d_k m)) (\<lambda>q.
          and_then (project_heads (s_w_k m) x b t (s_h m) (s_d_k m)) (\<lambda>k.
          and_then (project_heads (s_w_v m) x b t (s_h m) (s_d_k m)) (\<lambda>v.
          Inr (q, k, v))))
      | _ \<Rightarrow> Inl ValueError)"

definition build_sparse_mask ::
  "sparse_multi_head_attention_block \<Rightarrow> nat \<Rightarrow> nat \<Rightarrow> error + bool tensor" where
  "build_sparse_mask m seq_len batch_size =
     (let base_mask = create_sparse_mask seq_len (s_block_size m) (s_stride m) (s_causal m)
      in expand base_mask [int batch_size, s_h m, int seq_len, int seq_len])"

text \<open>
  The scores of the sparse variant after scaling and masking, before the softmax
  (lines 173 to 177). The mask is boolean already, so the conversion is the identity.
\<close>

definition compute_masked_scores ::
  "sparse_multi_head_attention_block \<Rightarrow> fl tensor \<Rightarrow> fl tensor \<Rightarrow> bool tensor \<Rightarrow> error + fl tensor" where
  "compute_masked_scores m q k msk =
     and_then (transpose_t k (- 2) (- 1)) (\<lambda>k_t.
     and_then (matmul q k_t) (\<lambda>prod.
     and_then (math_sqrt (s_d_k m)) (\<lambda>root.
     masked_fill (div_scalar prod root) (tmap Not msk) NInf)))"

definition compute_attention ::
  "sparse_multi_head_attention_block \<Rightarrow> fl tensor \<Rightarrow> fl tensor \<Rightarrow> fl tensor \<Rightarrow> bool tensor
     \<Rightarrow> error + fl tensor" where
  "compute_attention m q k v msk =
     and_then (compute_masked_scores m q k msk) (\<lambda>scores.
     (let attn_weights = dropout (s_dropout m) (softmax scores)
      in matmul attn_weights v))"

text \<open>
  \<open>output_projection\<close>: the merge of the heads (lines 183 and 184), then the output
  projection.
\<close>

definition merge_heads_sparse :: "fl tensor \<Rightarrow> error + fl tensor" where
  "merge_heads_sparse x =
     (case shape x of
        [b, h, t, d_k] \<Rightarrow>
          and_then (transpose_t x 1 2) (\<lambda>xt.
          view (contiguous xt) [int b, int t, int (h * d_k)])
      | _ \<Rightarrow> Inl ValueError)"

definition output_projection ::
  "sparse_multi_head_attention_block \<Rightarrow> fl tensor \<Rightarrow> error + fl tensor" where
  "output_projection m x = and_then (merge_heads_sparse x) (\<lambda>y. linear (s_w_o m) y)"

text \<open>
  The mask that \<open>forward\<close> hands to \<open>compute_attention\<close> (lines 144 to 152): the
  structural mask, combined with the external mask when there is one.
\<close>

definition attn_mask ::
  "sparse_multi_head_attention_block \<Rightarrow> nat \<Rightarrow> nat \<Rightarrow> bool tensor option \<Rightarrow> error + bool tensor" where
  "attn_mask m b t msk =
     and_then (build_sparse_mask m t b) (\<lambda>sparse_mask.
     (case msk of
        Some mk \<Rightarrow>
          and_then (if length (shape mk) = 3 then unsqueeze mk 1 else Inr mk) (\<lambda>mk1.
          and_then (expand mk1 [int b, s_h m, int t, int t]) (\<lambda>mk2.
          bop (\<and>) sparse_mask mk2))
      | None \<Rightarrow> Inr sparse_mask))"

definition SparseMultiHeadAttentionBlock_forward ::
  "sparse_multi_head_attention_block \<Rightarrow> fl tensor \<Rightarrow> fl tensor \<Rightarrow> fl tensor \<Rightarrow> bool tensor option
     \<Rightarrow> error + fl tensor" where
  "SparseMultiHeadAttentionBlock_forward m q k v msk =
     (case shape q of
        [b, t, d] \<Rightarrow>
          and_then (compute_qkv m q) (\<lambda>(q', k', v').
          and_then (attn_mask m b t msk) (\<lambda>am.
          and_then (compute_attention m q' k' v' am) (\<lambda>attn_out.
          output_projection m attn_out)))
      | _ \<Rightarrow> Inl ValueError)"

section \<open>Encoder and decoder\<close>

text \<open>Indexing a \<open>ModuleList\<close> with a non-negative literal.\<close>

definition module_at :: "'a list \<Rightarrow> nat \<Rightarrow> error + 'a" where
  "module_at ms i = (if i < length ms then Inr (ms ! i) else Inl IndexError)"

record encoder_block =
  e_self_attention_block :: sparse_multi_head_attention_block
  e_feed_forward_block :: feed_forward_block
  e_residual_connections :: "residual_connection list"

definition EncoderBlock_forward ::
  "encoder_block \<Rightarrow> fl tensor \<Rightarrow> bool tensor option \<Rightarrow> error + fl tensor" where
  "EncoderBlock_forward m x src_mask =
     and_then (module_at (e_residual_connections m) 0) (\<lambda>r0.
     and_then (ResidualConnection_forward r0 x
        (\<lambda>y. SparseMultiHeadAttentionBlock_forward (e_self_attention_block m) y y y src_mask)) (\<lambda>x1.
     and_then (module_at (e_residual_connections m) 1) (\<lambda>r1.
     ResidualConnection_forward r1 x1 (FeedForwardBlock_forward (e_feed_forward_block m)))))"

record encoder =
  enc_layers :: "encoder_block list"
  enc_norm :: layer_norm

fun encoder_layers :: "encoder_block list \<Rightarrow> fl tensor \<Rightarrow> bool tensor option \<Rightarrow> error + fl tensor" where
  "encoder_layers [] x msk = Inr x"
| "encoder_layers (layer # layers) x msk =
     and_then (EncoderBlock_forward layer x msk) (\<lambda>x'. encoder_layers layers x' msk)"

definition Encoder_forward :: "encoder \<Rightarrow> fl tensor \<Rightarrow> bool tensor option \<Rightarrow> error + fl tensor" where
  "Encoder_forward m x msk =
     and_then (encoder_layers (enc_layers m) x msk) (\<lambda>x'.
     LayerNormalization_forward (enc_norm m) x')"

record decoder_block =
  d_self_attention_block :: sparse_multi_head_attention_block
  d_cross_attention_block :: multi_head_attention_block
  d_feed_forward_block :: feed_forward_block
  d_residual_connection :: "residual_connection list"

definition DecoderBlock_forward ::
  "decoder_block \<Rightarrow> fl tensor \<Rightarrow> fl tensor \<Rightarrow> bool tensor option \<Rightarrow> bool tensor option
     \<Rightarrow> error + fl tensor" where
  "DecoderBlock_forward m x encoder_output src_mask tgt_mask =
     and_then (module_at (d_residual_connection m) 0) (\<lambda>r0.
     and_then (ResidualConnection_forward r0 x
        (\<lambda>y. SparseMultiHeadAttentionBlock_forward (d_self_attention_block m) y y y tgt_mask)) (\<lambda>x1.
     and_then (module_at (d_residual_connection m) 1) (\<lambda>r1.
     and_then (ResidualConnection_forward r1 x1
        (\<lambda>y. MultiHeadAttentionBlock_forward (d_cross_attention_block m)
                y encoder_output encoder_output src_mask)) (\<lambda>x2.
     and_then (module_at (d_residual_connection m) 2) (\<lambda>r2.
     ResidualConnection_forward r2 x2 (FeedForwardBlock_forward (d_feed_forward_block m)))))))"

record decoder =
  dec_layers :: "decoder_block list"
  dec_norm :: layer_norm

fun decoder_layers ::
  "decoder_block list \<Rightarrow> fl tensor \<Rightarrow> fl tensor \<Rightarrow> bool tensor option \<Rightarrow> bool tensor option
     \<Rightarrow> error + fl tensor" where
  "decoder_layers [] x encoder_output src_mask tgt_mask = Inr x"
| "decoder_layers (layer # layers) x encoder_output src_mask tgt_mask =
     and_then (DecoderBlock_forward layer x encoder_output src_mask tgt_mask) (\<lambda>x'.
     decoder_layers layers x' encoder_output src_mask tgt_mask)"

definition Decoder_forward ::
  "decoder \<Rightarrow> fl tensor \<Rightarrow> fl tensor \<Rightarrow> bool tensor option \<Rightarrow> bool tensor option
     \<Rightarrow> error + fl tensor" where
  "Decoder_forward m x encoder_output src_mask tgt_mask =
     and_then (decoder_layers (dec_layers m) x encoder_output src_mask tgt_mask) (\<lambda>x'.
     LayerNormalization_forward (dec_norm m) x')"

section \<open>Embedding, projection and the whole model\<close>

record input_embeddings =
  ie_d_model :: int
  ie_vocab_size :: int
  ie_embedding :: "fl tensor"

definition InputEmbeddings_forward :: "input_embeddings \<Rightarrow> int tensor \<Rightarrow> error + fl tensor" where
  "InputEmbeddings_forward m x =
     and_then (embedding (ie_embedding m) x) (\<lambda>y.
     and_then (math_sqrt (ie_d_model m)) (\<lambda>root.
     Inr (mul_scalar y root)))"

record projection_layer =
  proj :: linear_mod

definition ProjectionLayer_forward :: "projection_layer \<Rightarrow> fl tensor \<Rightarrow> error + fl tensor" where
  "ProjectionLayer_forward m x = linear (proj m) x"

record transformer =
  t_encoder :: encoder
  t_decoder :: decoder
  t_src_embed :: input_embeddings
  t_tgt_embed :: input_embeddings
  t_src_pos :: positional_encoding
  t_tgt_pos :: positional_encoding
  t_projection_layer :: projection_layer

definition Transformer_forward ::
  "transformer \<Rightarrow> int tensor \<Rightarrow> int tensor \<Rightarrow> bool tensor option \<Rightarrow> bool tensor option
     \<Rightarrow> error + fl tensor" where
  "Transformer_forward m encoder_input decoder_input encoder_mask decoder_mask =
     and_then (InputEmbeddings_forward (t_src_embed m) encoder_input) (\<lambda>src.
     and_then (PositionalEncoding_forward (t_src_pos m) src) (\<lambda>src.
     and_then (Encoder_forward (t_encoder m) src encoder_mask) (\<lambda>encoder_output.
     and_then (InputEmbeddings_forward (t_tgt_embed m) decoder_input) (\<lambda>tgt.
     and_then (PositionalEncoding_forward (t_tgt_pos m) tgt) (\<lambda>tgt.
     and_then (Decoder_forward (t_decoder m) tgt encoder_output encoder_mask decoder_mask)
       (\<lambda>decoder_output.
     ProjectionLayer_forward (t_projection_layer m) decoder_output))))))"

section \<open>Construction\<close>

text \<open>
  The random draws of construction and of the forward pass are explicit: \<open>init_value\<close>
  gives the initial value of every element of every weight and bias after
  initialisation, \<open>drop_sample\<close> the sample of every dropout module.
\<close>

datatype module_path =
    Src_embed | Tgt_embed | Src_pos | Tgt_pos
  | Enc_self nat | Enc_ff nat | Enc_res nat nat
  | Dec_self nat | Dec_cross nat | Dec_ff nat | Dec_res nat nat
  | Projection

datatype param_name = W_q | W_k | W_v | W_o | Lin1_w | Lin1_b | Lin2_w | Lin2_b | Emb_w | Proj_w | Proj_b

record rng =
  init_value :: "module_path \<Rightarrow> param_name \<Rightarrow> nat list \<Rightarrow> real"
  drop_sample :: "module_path \<Rightarrow> nat list \<Rightarrow> bool"

definition Linear_init ::
  "int \<Rightarrow> int \<Rightarrow> (nat list \<Rightarrow> real) \<Rightarrow> (nat list \<Rightarrow> real) option \<Rightarrow> error + linear_mod" where
  "Linear_init in_features out_features wv bv =
     (if in_features < 0 \<or> out_features < 0 then Inl RuntimeError
      else Inr \<lparr>weight = \<lparr>shape = [nat out_features, nat in_features], elem = (\<lambda>idx. Fin (wv idx))\<rparr>,
                bias = map_option (\<lambda>b. \<lparr>shape = [nat out_features], elem = (\<lambda>idx. Fin (b idx))\<rparr>) bv\<rparr>)"

definition InputEmbeddings_init ::
  "int \<Rightarrow> int \<Rightarrow> (nat list \<Rightarrow> real) \<Rightarrow> error + input_embeddings" where
  "InputEmbeddings_init d_model vocab_size wv =
     (if vocab_size < 0 \<or> d_model < 0 then Inl RuntimeError
      else Inr \<lparr>ie_d_model = d_model, ie_vocab_size = vocab_size,
                ie_embedding = \<lparr>shape = [nat vocab_size, nat d_model], elem = (\<lambda>idx. Fin (wv idx))\<rparr>\<rparr>)"

definition MultiHeadAttentionBlock_init ::
  "int \<Rightarrow> int \<Rightarrow> real \<Rightarrow> rng \<Rightarrow> module_path \<Rightarrow> error + multi_head_attention_block" where
  "MultiHeadAttentionBlock_init d_model h p g path =
     (if h = 0 then Inl ZeroDivisionError
      else if d_model mod h \<noteq> 0 then Inl (AssertionError ''d_model is not divisible by h'')
      else
        and_then (Linear_init d_model d_model (init_value g path W_q) None) (\<lambda>wq.
        and_then (Linear_init d_model d_model (init_value g path W_k) None) (\<lambda>wk.
        and_then (Linear_init d_model d_model (init_value g path W_v) None) (\<lambda>wv.
        and_then (Linear_init d_model d_model (init_value g path W_o) None) (\<lambda>wo.
        and_then (Dropout_init p (drop_sample g path)) (\<lambda>dr.
        Inr \<lparr>m_d_model = d_model, m_h = h, m_d_k = d_model div h,
             m_w_q = wq, m_w_k = wk, m_w_v = wv, m_w_o = wo, m_dropout = dr\<rparr>))))))"

text \<open>
  The sparse block computes \<open>d_model // h\<close> before its assertion. \<open>block_size\<close>,
  \<open>stride\<close> and \<open>causal\<close> are stored as they come.
\<close>

definition SparseMultiHeadAttentionBlock_init ::
  "int \<Rightarrow> int \<Rightarrow> real \<Rightarrow> int \<Rightarrow> int \<Rightarrow> bool \<Rightarrow> rng \<Rightarrow> module_path
     \<Rightarrow> error + sparse_multi_head_attention_block" where
  "SparseMultiHeadAttentionBlock_init d_model h p block_size stride causal g path =
     (if h = 0 then Inl ZeroDivisionError
      else if d_model mod h \<noteq> 0 then Inl (AssertionError ''d_model must be divisible by h'')
      else
        and_then (Linear_init d_model d_model (init_value g path W_q) None) (\<lambda>wq.
        and_then (Linear_init d_model d_model (init_value g path W_k) None) (\<lambda>wk.
        and_then (Linear_init d_model d_model (init_value g path W_v) None) (\<lambda>wv.
        and_then (Linear_init d_model d_model (init_value g path W_o) None) (\<lambda>wo.
        and_then (Dropout_init p (drop_sample g path)) (\<lambda>dr.
        Inr \<lparr>s_d_model = d_model, s_h = h, s_d_k = d_model div h,
             s_block_size = block_size, s_stride = stride, s_causal = causal,
             s_w_q = wq, s_w_k = wk, s_w_v = wv, s_w_o = wo, s_dropout = dr\<rparr>))))))"

definition FeedForwardBlock_init ::
  "int \<Rightarrow> int \<Rightarrow> real \<Rightarrow> rng \<Rightarrow> module_path \<Rightarrow> error + feed_forward_block" where
  "FeedForwardBlock_init d_model d_ff p g path =
     and_then (Linear_init d_model d_ff (init_value g path Lin1_w) (Some (init_value g path Lin1_b))) (\<lambda>l1.
     and_then (Dropout_init p (drop_sample g path)) (\<lambda>dr.
     and_then (Linear_init d_ff d_model (init_value g path Lin2_w) (Some (init_value g path Lin2_b))) (\<lambda>l2.
     Inr \<lparr>linear1 = l1, ff_dropout = dr, linear2 = l2\<rparr>)))"

definition ResidualConnection_init ::
  "int \<Rightarrow> real \<Rightarrow> (nat list \<Rightarrow> bool) \<Rightarrow> error + residual_connection" where
  "ResidualConnection_init features p sample =
     and_then (Dropout_init p sample) (\<lambda>dr.
     and_then (LayerNormalization_init features (1 / 10 ^ 6)) (\<lambda>n.
     Inr \<lparr>rc_dropout = dr, rc_norm = n\<rparr>))"

text \<open>Running a fallible step over a list, in order, up to the first error.\<close>

fun map_e :: "('a \<Rightarrow> error + 'b) \<Rightarrow> 'a list \<Rightarrow> error + 'b list" where
  "map_e f [] = Inr []"
| "map_e f (x # xs) = and_then (f x) (\<lambda>y. and_then (map_e f xs) (\<lambda>ys. Inr (y # ys)))"

definition EncoderBlock_init ::
  "int \<Rightarrow> sparse_multi_head_attention_block \<Rightarrow> feed_forward_block \<Rightarrow> real \<Rightarrow> rng \<Rightarrow> nat
     \<Rightarrow> error + encoder_block" where
  "EncoderBlock_init features sa ff p g i =
     and_then (map_e (\<lambda>j. ResidualConnection_init features p (drop_sample g (Enc_res i j))) [0..<2]) (\<lambda>rs.
     Inr \<lparr>e_self_attention_block = sa, e_feed_forward_block = ff, e_residual_connections = rs\<rparr>)"

definition DecoderBlock_init ::
  "int \<Rightarrow> sparse_multi_head_attention_block \<Rightarrow> multi_head_attention_block \<Rightarrow> feed_forward_block
     \<Rightarrow> real \<Rightarrow> rng \<Rightarrow> nat \<Rightarrow> error + decoder_block" where
  "DecoderBlock_init features sa ca ff p g i =
     and_then (map_e (\<lambda>j. ResidualConnection_init features p (drop_sample g (Dec_res i j))) [0..<3]) (\<lambda>rs.
     Inr \<lparr>d_self_attention_block = sa, d_cross_attention_block = ca,
          d_feed_forward_block = ff, d_residual_connection = rs\<rparr>)"

definition Encoder_init :: "int \<Rightarrow> encoder_block list \<Rightarrow> error + encoder" where
  "Encoder_init features layers =
     and_then (LayerNormalization_init features (1 / 10 ^ 6)) (\<lambda>n.
     Inr \<lparr>enc_layers = layers, enc_norm = n\<rparr>)"

definition Decoder_init :: "int \<Rightarrow> decoder_block list \<Rightarrow> error + decoder" where
  "Decoder_init features layers =
     and_then (LayerNormalization_init features (1 / 10 ^ 6)) (\<lambda>n.
     Inr \<lparr>dec_layers = layers, dec_norm = n\<rparr>)"

definition ProjectionLayer_init :: "int \<Rightarrow> int \<Rightarrow> rng \<Rightarrow> error + projection_layer" where
  "ProjectionLayer_init d_model vocab_size g =
     and_then (Linear_init d_model vocab_size (init_value g Projection Proj_w)
                 (Some (init_value g Projection Proj_b))) (\<lambda>l.
     Inr \<lparr>proj = l\<rparr>)"

text \<open>
  \<open>build_sparse_transformer\<close>. The closing loop re-initialises every parameter of more
  than one dimension; it divides by the sum of the two sizes of the matrix, which is
  positive for every matrix once the positional encodings are built (\<open>d_model\<close> is
  positive then), so it cannot fail and its draws are part of \<open>init_value\<close>.
\<close>

definition build_sparse_transformer ::
  "int \<Rightarrow> int \<Rightarrow> int \<Rightarrow> int \<Rightarrow> int \<Rightarrow> int \<Rightarrow> int \<Rightarrow> real \<Rightarrow> int \<Rightarrow> int \<Rightarrow> int \<Rightarrow> rng
     \<Rightarrow> error + transformer" where
  "build_sparse_transformer src_vocab_size tgt_vocab_size src_seq_len tgt_seq_len d_model n h p
       d_ff block_size stride g =
     and_then (InputEmbeddings_init d_model src_vocab_size (init_value g Src_embed Emb_w)) (\<lambda>src_embed.
     and_then (InputEmbeddings_init d_model tgt_vocab_size (init_value g Tgt_embed Emb_w)) (\<lambda>tgt_embed.
     and_then (PositionalEncoding_init d_model src_seq_len p (drop_sample g Src_pos)) (\<lambda>src_pos.
     and_then (PositionalEncoding_init d_model tgt_seq_len p (drop_sample g Tgt_pos)) (\<lambda>tgt_pos.
     and_then (map_e (\<lambda>i.
        and_then (SparseMultiHeadAttentionBlock_init d_model h p block_size stride False g (Enc_self i))
          (\<lambda>encoder_self_attention_block.
        and_then (FeedForwardBlock_init d_model d_ff p g (Enc_ff i)) (\<lambda>feed_forward_block.
        EncoderBlock_init d_model encoder_self_attention_block feed_forward_block p g i)))
        [0..<nat n]) (\<lambda>encoder_blocks.
     and_then (map_e (\<lambda>i.
        and_then (SparseMultiHeadAttentionBlock_init d_model h p block_size stride True g (Dec_self i))
          (\<lambda>decoder_self_attention_block.
        and_then (MultiHeadAttentionBlock_init d_model h p g (Dec_cross i))
          (\<lambda>decoder_cross_attention_block.
        and_then (FeedForwardBlock_init d_model d_ff p g (Dec_ff i)) (\<lambda>feed_forward_block.
        DecoderBlock_init d_model decoder_self_attention_block decoder_cross_attention_block
          feed_forward_block p g i))))
        [0..<nat n]) (\<lambda>decoder_blocks.
     and_then (Encoder_init d_model encoder_blocks) (\<lambda>enc.
     and_then (Decoder_init d_model decoder_blocks) (\<lambda>dec.
     and_then (ProjectionLayer_init d_model tgt_vocab_size g) (\<lambda>projection.
     Inr \<lparr>t_encoder = enc, t_decoder = dec, t_src_embed = src_embed, t_tgt_embed = tgt_embed,
          t_src_pos = src_pos, t_tgt_pos = tgt_pos, t_projection_layer = projection\<rparr>)))))))))"

section \<open>Reading a broadcast mask\<close>

text \<open>
  The external mask as the spec has it replicated over the grid \<open>(B, h, T, T)\<close>: the
  value at \<open>[b, hx, q, k]\<close> is the mask's own value there, with every dimension of size
  one (and every dimension the mask lacks) read at its only position. A mask of rank
  three has no head dimension.
\<close>

definition external_mask_at :: "bool tensor \<Rightarrow> nat \<Rightarrow> nat \<Rightarrow> nat \<Rightarrow> nat \<Rightarrow> bool" where
  "external_mask_at mk b hx q k =
     (if length (shape mk) = 3 then elem mk (bidx (shape mk) [b, q, k])
      else elem mk (bidx (shape mk) [b, hx, q, k]))"

section \<open>Outcomes\<close>

text \<open>The error a computation ends in, if it ends in one.\<close>

definition failure :: "error + 'a \<Rightarrow> error option" where
  "failure r = (case r of Inl e \<Rightarrow> Some e | Inr v \<Rightarrow> None)"

section \<open>Small instances\<close>

text \<open>Concrete tensors and modules on which the theorems below are exercised.\<close>

definition const_tensor :: "nat list \<Rightarrow> 'a \<Rightarrow> 'a tensor" where
  "const_tensor sh v = \<lparr>shape = sh, elem = (\<lambda>idx. v)\<rparr>"

definition unit_linear :: linear_mod where
  "unit_linear = \<lparr>weight = const_tensor [1, 1] (Fin 1), bias = None\<rparr>"

definition no_dropout :: dropout_mod where
  "no_dropout = \<lparr>drop_p = 0, training = False, keep = (\<lambda>idx. True)\<rparr>"

definition tiny_sparse_block :: sparse_multi_head_attention_block where
  "tiny_sparse_block =
     \<lparr>s_d_model = 1, s_h = 1, s_d_k = 1, s_block_size = 1, s_stride = 1, s_causal = False,
      s_w_q = unit_linear, s_w_k = unit_linear, s_w_v = unit_linear, s_w_o = unit_linear,
      s_dropout = no_dropout\<rparr>"

definition tiny_causal_block :: sparse_multi_head_attention_block where
  "tiny_causal_block = tiny_sparse_block\<lparr>s_causal := True\<rparr>"

definition tiny_residual :: residual_connection where
  "tiny_residual =
     \<lparr>rc_dropout = no_dropout,
      rc_norm = \<lparr>ln_eps = 1 / 10 ^ 6, ln_alpha = const_tensor [1] (Fin 1),
                 ln_bias = const_tensor [1] (Fin 0)\<rparr>\<rparr>"

definition add_two :: "fl tensor \<Rightarrow> error + fl tensor" where
  "add_two t = Inr (tmap (\<lambda>v. fadd v (Fin 2)) t)"

definition zero_rng :: rng where
  "zero_rng = \<lparr>init_value = (\<lambda>path name idx. 0), drop_sample = (\<lambda>path idx. True)\<rparr>"

definition two_head_block :: sparse_multi_head_attention_block where
  "two_head_block =
     \<lparr>s_d_model = 2, s_h = 2, s_d_k = 1, s_block_size = 1, s_stride = 2, s_causal = False,
      s_w_q = \<lparr>weight = const_tensor [2, 2] (Fin 1), bias = None\<rparr>,
      s_w_k = \<lparr>weight = const_tensor [2, 2] (Fin 1), bias = None\<rparr>,
      s_w_v = \<lparr>weight = const_tensor [2, 2] (Fin 1), bias = None\<rparr>,
      s_w_o = \<lparr>weight = const_tensor [2, 2] (Fin 1), bias = None\<rparr>,
      s_dropout = no_dropout\<rparr>"

text \<open>A padding mask of shape \<open>(1, 1, 1, 2)\<close>: the second key position is padding.\<close>

definition key_padding_mask :: "bool tensor" where
  "key_padding_mask = \<lparr>shape = [1, 1, 1, 2], elem = (\<lambda>idx. idx ! 3 = 0)\<rparr>"

section \<open>Shared lemmas\<close>

lemma and_then_Inr: "and_then m f = Inr r \<longleftrightarrow> (\<exists>v. m = Inr v \<and> f v = Inr r)"
  by (cases m) (simp_all add: and_then_def)

lemma bop_elem:
  "bop f a b = Inr c \<Longrightarrow> elem c idx = f (elem a (bidx (shape a) idx)) (elem b (bidx (shape b) idx))"
  by (auto simp: bop_def split: option.splits)

lemma expand_elem: "expand t sizes = Inr r \<Longrightarrow> elem r idx = elem t (bidx (shape t) idx)"
  by (auto simp: expand_def split: option.splits)

lemma bidx_same2: "i < a \<Longrightarrow> j < b \<Longrightarrow> bidx [a, b] [i, j] = [i, j]"
  by (auto simp: bidx_def)

lemma bidx_in_range: "list_all2 (<) idx sh \<Longrightarrow> bidx sh idx = idx"
proof -
  assume a: "list_all2 (<) idx sh"
  then have l: "length idx = length sh" by (rule list_all2_lengthD)
  have "map2 (\<lambda>d i. if d = 1 then 0 else i) sh idx = idx"
    using a by (induction idx sh rule: list_all2_induct) auto
  then show ?thesis by (simp add: bidx_def l)
qed

lemma broadcast_shapes_same: "broadcast_shapes sh sh = Some sh"
proof -
  have "bshape_rev xs xs = Some xs" for xs
    by (induction xs) (simp_all add: bdim_def)
  then show ?thesis by (simp add: broadcast_shapes_def)
qed

section \<open>Splitting into heads and merging back\<close>

lemma ravel_less: "list_all2 (<) idx sh \<Longrightarrow> ravel sh idx < numel sh"
proof (induction idx sh rule: list_all2_induct)
  case Nil
  then show ?case by (simp add: numel_def)
next
  case (Cons i idx s sh)
  have "i * numel sh + ravel sh idx < Suc i * numel sh"
    using Cons.IH by simp
  also have "\<dots> \<le> s * numel sh"
    using Cons.hyps(1) by (intro mult_le_mono1) simp
  finally show ?case by (simp add: numel_def)
qed

lemma unravel_ravel: "list_all2 (<) idx sh \<Longrightarrow> unravel sh (ravel sh idx) = idx"
proof (induction idx sh rule: list_all2_induct)
  case Nil
  then show ?case by simp
next
  case (Cons i idx s sh)
  have lt: "ravel sh idx < numel sh" using Cons.hyps(2) by (rule ravel_less)
  then show ?case using Cons.IH by simp
qed

lemma ravel_split_last:
  assumes "0 < K"
  shows "ravel [B, T, H, K] [b, t, d div K, d mod K] = ravel [B, T, H * K] [b, t, d]"
  by (simp add: numel_def algebra_simps)

lemma view_shape_split:
  "view_shape (numel [B, T, H * K]) [int B, int T, int H, int K] = Inr [B, T, H, K]"
  by (simp add: view_shape_def numel_def)

lemma view_shape_merge_sparse:
  "view_shape (numel [B, T, H, K]) [int B, int T, int (H * K)] = Inr [B, T, H * K]"
  by (simp add: view_shape_def numel_def del: of_nat_mult)

lemma view_shape_merge_dense:
  assumes "0 < B" "0 < H * K"
  shows "view_shape (numel [B, T, H, K]) [int B, - 1, int H * int K] = Inr [B, T, H * K]"
proof -
  have e: "int H * int K = int (H * K)" by simp
  have ne: "int B \<noteq> - 1" "int (H * K) \<noteq> - 1" by linarith+
  have p: "numel (map nat (filter (\<lambda>z. z \<noteq> - 1) [int B, - 1, int (H * K)])) = B * (H * K)"
    using ne by (simp add: numel_def del: of_nat_mult)
  have d: "numel [B, T, H, K] div (B * (H * K)) = T"
    using assms by (simp add: numel_def)
  have m: "numel [B, T, H, K] mod (B * (H * K)) = 0"
    by (simp add: numel_def)
  show ?thesis
    unfolding e view_shape_def using ne assms p d m
    by (simp add: Let_def del: of_nat_mult)
qed

lemma transpose_12:
  "length (shape t) = 4 \<Longrightarrow>
   transpose_t t 1 2 = Inr \<lparr>shape = swap (shape t) 1 2, elem = (\<lambda>idx. elem t (swap idx 1 2))\<rparr>"
  by (simp add: transpose_t_def norm_dim_def)

lemma split_heads_ok:
  assumes "shape x = [B, T, H * K]"
  shows "split_heads x (int H) (int K) =
           Inr \<lparr>shape = [B, H, T, K],
                elem = (\<lambda>idx. elem x (unravel [B, T, H * K] (ravel [B, T, H, K] (swap idx 1 2))))\<rparr>"
  using assms view_shape_split [of B T H K]
  by (simp add: split_heads_def shape_at_def and_then_def view_def transpose_12 swap_def)

lemma split_heads_sparse_ok:
  assumes "shape x = [B, T, H * K]"
  shows "split_heads_sparse x B T (int H) (int K) =
           Inr \<lparr>shape = [B, H, T, K],
                elem = (\<lambda>idx. elem x (unravel [B, T, H * K] (ravel [B, T, H, K] (swap idx 1 2))))\<rparr>"
  using assms view_shape_split [of B T H K]
  by (simp add: split_heads_sparse_def and_then_def view_def transpose_12 swap_def)

lemma merge_heads_sparse_ok:
  assumes "shape s = [B, H, T, K]"
  shows "merge_heads_sparse s =
           Inr \<lparr>shape = [B, T, H * K],
                elem = (\<lambda>idx. elem s (swap (unravel [B, T, H, K] (ravel [B, T, H * K] idx)) 1 2))\<rparr>"
  using assms view_shape_merge_sparse [of B T H K]
  by (simp add: merge_heads_sparse_def and_then_def view_def transpose_12 swap_def contiguous_def)

lemma merge_heads_ok:
  assumes "shape s = [B, H, T, K]" "0 < B" "0 < H * K"
  shows "merge_heads s (int H) (int K) =
           Inr \<lparr>shape = [B, T, H * K],
                elem = (\<lambda>idx. elem s (swap (unravel [B, T, H, K] (ravel [B, T, H * K] idx)) 1 2))\<rparr>"
  using assms(1) view_shape_merge_dense [OF assms(2,3), of T]
  by (simp add: merge_heads_def shape_at_def and_then_def view_def transpose_12 swap_def contiguous_def)

lemma round_trip_index:
  assumes "b < B" "t < T" "d < H * K"
  shows "unravel [B, T, H * K]
           (ravel [B, T, H, K] (swap (swap (unravel [B, T, H, K] (ravel [B, T, H * K] [b, t, d])) 1 2) 1 2))
         = [b, t, d]"
proof -
  have K: "0 < K" using assms(3) by (cases K) auto
  have dH: "d div K < H" using assms(3) K by (simp add: less_mult_imp_div_less mult.commute)
  have r1: "ravel [B, T, H * K] [b, t, d] = ravel [B, T, H, K] [b, t, d div K, d mod K]"
    using ravel_split_last [OF K] by simp
  have in4: "list_all2 (<) [b, t, d div K, d mod K] [B, T, H, K]"
    using assms K dH by simp
  have u4: "unravel [B, T, H, K] (ravel [B, T, H * K] [b, t, d]) = [b, t, d div K, d mod K]"
    unfolding r1 by (rule unravel_ravel [OF in4])
  have sw: "swap (swap [b, t, d div K, d mod K] 1 2) 1 2 = [b, t, d div K, d mod K]"
    by (simp add: swap_def)
  have in3: "list_all2 (<) [b, t, d] [B, T, H * K]" using assms by simp
  show ?thesis
    unfolding u4 sw r1 [symmetric] by (rule unravel_ravel [OF in3])
qed

lemma split_index:
  assumes "b < B" "t < T" "i < H" "j < K"
  shows "unravel [B, T, H * K] (ravel [B, T, H, K] (swap [b, i, t, j] 1 2)) = [b, t, i * K + j]"
proof -
  have lt: "i * K + j < H * K"
  proof -
    have "i * K + j < Suc i * K" using assms(4) by simp
    also have "\<dots> \<le> H * K" using assms(3) by (intro mult_le_mono1) simp
    finally show ?thesis .
  qed
  have r: "ravel [B, T, H, K] [b, t, i, j] = ravel [B, T, H * K] [b, t, i * K + j]"
    by (simp add: numel_def algebra_simps)
  have in3: "list_all2 (<) [b, t, i * K + j] [B, T, H * K]" using assms lt by simp
  have sw: "swap [b, i, t, j] 1 2 = [b, t, i, j]" by (simp add: swap_def)
  show ?thesis unfolding sw r by (rule unravel_ravel [OF in3])
qed

text \<open>
  The round trip where the merge is defined. For every \<open>H > 0\<close> dividing \<open>D\<close> and
  every tensor of shape \<open>(B, T, D)\<close>, the split into \<open>H\<close> heads of width \<open>D / H\<close>
  moves the value at \<open>[b, t, i * (D / H) + j]\<close> to \<open>[b, i, t, j]\<close>, and the merge
  gives back a tensor of the same shape with the same value at every index: for the
  sparse block for every \<open>B\<close> and \<open>T\<close>, for the dense block when \<open>B\<close> and \<open>D\<close>
  are positive.
\<close>

theorem head_split_merge_round_trip:
  assumes "0 < H" and "H dvd D" and "shape x = [B, T, D]"
  shows "(\<exists>s r. split_heads_sparse x B T (int H) (int (D div H)) = Inr s
            \<and> shape s = [B, H, T, D div H]
            \<and> (\<forall>b<B. \<forall>i<H. \<forall>t<T. \<forall>j<D div H. elem s [b, i, t, j] = elem x [b, t, i * (D div H) + j])
            \<and> merge_heads_sparse s = Inr r
            \<and> shape r = shape x
            \<and> (\<forall>b<B. \<forall>t<T. \<forall>d<D. elem r [b, t, d] = elem x [b, t, d]))
       \<and> (0 < B \<and> 0 < D \<longrightarrow>
           (\<exists>s r. split_heads x (int H) (int (D div H)) = Inr s
            \<and> shape s = [B, H, T, D div H]
            \<and> (\<forall>b<B. \<forall>i<H. \<forall>t<T. \<forall>j<D div H. elem s [b, i, t, j] = elem x [b, t, i * (D div H) + j])
            \<and> merge_heads s (int H) (int (D div H)) = Inr r
            \<and> shape r = shape x
            \<and> (\<forall>b<B. \<forall>t<T. \<forall>d<D. elem r [b, t, d] = elem x [b, t, d])))"
proof -
  define K where "K = D div H"
  have D: "D = H * K" using assms(2) by (simp add: K_def)
  have sx: "shape x = [B, T, H * K]" using assms(3) D by simp
  define s where
    "s = \<lparr>shape = [B, H, T, K],
          elem = (\<lambda>idx. elem x (unravel [B, T, H * K] (ravel [B, T, H, K] (swap idx 1 2))))\<rparr>"
  define r where
    "r = \<lparr>shape = [B, T, H * K],
          elem = (\<lambda>idx. elem s (swap (unravel [B, T, H, K] (ravel [B, T, H * K] idx)) 1 2))\<rparr>"
  have ss: "shape s = [B, H, T, K]" by (simp add: s_def)
  have sp: "split_heads_sparse x B T (int H) (int K) = Inr s"
    unfolding s_def by (rule split_heads_sparse_ok [OF sx])
  have sd: "split_heads x (int H) (int K) = Inr s"
    unfolding s_def by (rule split_heads_ok [OF sx])
  have ms: "merge_heads_sparse s = Inr r"
    unfolding r_def by (rule merge_heads_sparse_ok [OF ss])
  have md: "merge_heads s (int H) (int K) = Inr r" if "0 < B" "0 < D"
    unfolding r_def using that D by (intro merge_heads_ok [OF ss]) simp_all
  have es: "elem s [b, i, t, j] = elem x [b, t, i * K + j]" if "b < B" "i < H" "t < T" "j < K" for b i t j
  proof -
    have "elem s [b, i, t, j] =
            elem x (unravel [B, T, H * K] (ravel [B, T, H, K] (swap [b, i, t, j] 1 2)))"
      unfolding s_def by (simp only: tensor.select_convs)
    then show ?thesis
      by (simp only: split_index [OF that(1) that(3) that(2) that(4)])
  qed
  have er: "elem r [b, t, d] = elem x [b, t, d]" if "b < B" "t < T" "d < D" for b t d
  proof -
    have d: "d < H * K" using that(3) D by simp
    have "elem r [b, t, d] =
            elem x (unravel [B, T, H * K] (ravel [B, T, H, K]
              (swap (swap (unravel [B, T, H, K] (ravel [B, T, H * K] [b, t, d])) 1 2) 1 2)))"
      unfolding r_def s_def by (simp only: tensor.select_convs)
    then show ?thesis
      by (simp only: round_trip_index [OF that(1) that(2) d])
  qed
  have sr: "shape r = shape x" using sx by (simp add: r_def)
  show ?thesis
    unfolding K_def [symmetric] using sp sd ms md es er ss sr by blast
qed

theorem head_split_merge_round_trip_witness:
  "\<exists>s r. split_heads \<lparr>shape = [1, 1, 4], elem = (\<lambda>idx. Fin (real (idx ! 2)))\<rparr> 2 2 = Inr s
     \<and> merge_heads s 2 2 = Inr r
     \<and> shape r = [1, 1, 4]
     \<and> elem r [0, 0, 3] = Fin 3"
proof -
  have h: "(0::nat) < 2" "(2::nat) dvd 4"
    "shape \<lparr>shape = [1, 1, 4], elem = (\<lambda>idx. Fin (real (idx ! 2)))\<rparr> = [1, 1, 4]"
    by simp_all
  have d: "int (4 div 2) = 2" by simp
  show ?thesis
    using head_split_merge_round_trip [OF h] unfolding d by fastforce
qed

text \<open>
  C9, at a failing input. The claim asks that, for every tensor of shape \<open>(B, T, D)\<close>,
  the split into heads followed by the merge gives the tensor back. On an empty batch
  (\<open>B = 0\<close>, one head of width one) the merge of the dense block,
  \<open>view(x.shape[0], -1, h * d_k)\<close>, cannot infer the size it leaves open and raises,
  where the merge of the sparse block, which passes the sequence length, returns a
  tensor of the shape of the input.
\<close>

theorem dense_merge_fails_on_empty_batch:
  "(case split_heads \<lparr>shape = [0, 1, 1], elem = (\<lambda>idx. Fin 0)\<rparr> 1 1 of
      Inl e \<Rightarrow> False
    | Inr s \<Rightarrow> merge_heads s 1 1 = Inl RuntimeError)
   \<and> (case split_heads_sparse \<lparr>shape = [0, 1, 1], elem = (\<lambda>idx. Fin 0)\<rparr> 0 1 1 1 of
      Inl e \<Rightarrow> False
    | Inr s \<Rightarrow> (case merge_heads_sparse s of Inl e \<Rightarrow> False | Inr r \<Rightarrow> shape r = [0, 1, 1]))"
proof -
  let ?x = "\<lparr>shape = [0, 1, 1], elem = (\<lambda>idx. Fin 0)\<rparr> :: fl tensor"
  let ?s = "\<lparr>shape = [0, 1, 1, 1],
             elem = (\<lambda>idx. elem ?x (unravel [0, 1, 1 * 1] (ravel [0, 1, 1, 1] (swap idx 1 2))))\<rparr>"
  have sx: "shape ?x = [0, 1, 1 * 1]" by simp
  have d: "split_heads ?x (int 1) (int 1) = Inr ?s"
    by (rule split_heads_ok [OF sx])
  have sp: "split_heads_sparse ?x 0 1 (int 1) (int 1) = Inr ?s"
    by (rule split_heads_sparse_ok [OF sx])
  have md: "merge_heads ?s 1 1 = Inl RuntimeError"
    by (simp add: merge_heads_def and_then_def transpose_12 shape_at_def swap_def contiguous_def
        view_def view_shape_def numel_def)
  have ss: "shape ?s = [0, 1, 1, 1]" by simp
  have ms: "merge_heads_sparse ?s =
              Inr \<lparr>shape = [0, 1, 1 * 1],
                   elem = (\<lambda>idx. elem ?s (swap (unravel [0, 1, 1, 1] (ravel [0, 1, 1 * 1] idx)) 1 2))\<rparr>"
    by (rule merge_heads_sparse_ok [OF ss])
  from d sp have d': "split_heads ?x 1 1 = Inr ?s" and sp': "split_heads_sparse ?x 0 1 1 1 = Inr ?s"
    by simp_all
  show ?thesis
    unfolding d' sp' sum.case ms using md by simp
qed

section \<open>The positional-encoding table\<close>

lemma assign_cols_shape: "assign_cols t start src = Inr r \<Longrightarrow> shape r = shape t"
  by (auto simp: assign_cols_def and_then_def split: list.splits sum.splits)

lemma assign_cols_elem:
  assumes "assign_cols t start src = Inr r"
  shows "elem r [i, c] =
           (if start \<le> c \<and> (c - start) mod 2 = 0
            then elem src (bidx (shape src) [i, (c - start) div 2]) else elem t [i, c])"
  using assms
  by (auto simp: assign_cols_def and_then_def expand_elem split: list.splits sum.splits)

lemma angle_value:
  "real pos * exp (real (2 * i) * - (ln 1000 / real_of_int d)) =
     real pos / 1000 powr (real (2 * i) / real_of_int d)"
  by (simp add: powr_def exp_minus field_simps)

lemma pe_init_steps:
  assumes "PositionalEncoding_init d_model seq_len p sample = Inr m"
  shows "\<exists>pe0 position angle pe1 pe2 pe3.
           full [seq_len, d_model] (Fin 0) = Inr pe0
         \<and> unsqueeze (arange (nat seq_len) 1) 1 = Inr position
         \<and> bop fmul position
              (tmap fexp (mul_scalar (arange (nat d_model) 2) (- (ln 1000 / real_of_int d_model))))
             = Inr angle
         \<and> assign_cols pe0 0 (tmap fsin angle) = Inr pe1
         \<and> assign_cols pe1 1 (tmap fcos angle) = Inr pe2
         \<and> unsqueeze pe2 0 = Inr pe3
         \<and> pe m = pe3"
  using assms unfolding PositionalEncoding_init_def
  by (auto simp: and_then_Inr Let_def split: if_splits)

lemma pe_shape:
  assumes ok: "PositionalEncoding_init d_model seq_len p sample = Inr m"
  shows "shape (pe m) = [1, nat seq_len, nat d_model]"
proof -
  from pe_init_steps [OF ok] obtain pe0 src1 pe1 src2 pe2 pe3 where
    f: "full [seq_len, d_model] (Fin 0) = Inr pe0"
    and a1: "assign_cols pe0 0 src1 = Inr pe1"
    and a2: "assign_cols pe1 1 src2 = Inr pe2"
    and u: "unsqueeze pe2 0 = Inr pe3"
    and m: "pe m = pe3"
    by blast
  have "shape pe0 = [nat seq_len, nat d_model]"
    using f by (auto simp: full_def split: if_splits)
  then have "shape pe2 = [nat seq_len, nat d_model]"
    using assign_cols_shape [OF a1] assign_cols_shape [OF a2] by simp
  then show ?thesis
    using u m by (auto simp: unsqueeze_def norm_dim_def)
qed

lemma pe_values:
  assumes ok: "PositionalEncoding_init d_model seq_len p sample = Inr m"
    and pos: "pos < nat seq_len" and i: "2 * i < nat d_model"
  shows "elem (pe m) [0, pos, 2 * i] = Fin (sin (real pos / 1000 powr (real (2 * i) / real_of_int d_model)))"
    and "elem (pe m) [0, pos, 2 * i + 1] = Fin (cos (real pos / 1000 powr (real (2 * i) / real_of_int d_model)))"
proof -
  define div_term where
    "div_term = tmap fexp (mul_scalar (arange (nat d_model) 2) (- (ln 1000 / real_of_int d_model)))"
  from pe_init_steps [OF ok] obtain pe0 position angle pe1 pe2 pe3 where
    ps: "unsqueeze (arange (nat seq_len) 1) 1 = Inr position"
    and an: "bop fmul position div_term = Inr angle"
    and a1: "assign_cols pe0 0 (tmap fsin angle) = Inr pe1"
    and a2: "assign_cols pe1 1 (tmap fcos angle) = Inr pe2"
    and u: "unsqueeze pe2 0 = Inr pe3"
    and m: "pe m = pe3"
    unfolding div_term_def by blast
  have position: "shape position = [nat seq_len, 1]" "\<And>a b. elem position [a, b] = Fin (real a)"
    using ps by (auto simp: unsqueeze_def norm_dim_def arange_def)
  have dt: "shape div_term = [(nat d_model + 1) div 2]"
    "\<And>a. elem div_term [a] = Fin (exp (real (2 * a) * - (ln 1000 / real_of_int d_model)))"
    by (simp_all add: div_term_def tmap_def mul_scalar_def arange_def)
  have i': "i < (nat d_model + 1) div 2" using i by linarith
  have sh_angle: "shape angle = [nat seq_len, (nat d_model + 1) div 2]"
    using an position(1) dt(1)
    by (auto simp: bop_def broadcast_shapes_def bdim_def split: option.splits if_splits)
  have angle: "elem angle [pos, i] = Fin (real pos / 1000 powr (real (2 * i) / real_of_int d_model))"
  proof -
    have b1: "bidx [nat seq_len, 1] [pos, i] = [pos, 0]" using pos by (auto simp: bidx_def)
    have b2: "bidx [(nat d_model + 1) div 2] [pos, i] = [i]" using i' by (auto simp: bidx_def)
    show ?thesis
      unfolding bop_elem [OF an] position(1) dt(1) b1 b2 position(2) dt(2)
      by (simp only: fmul.simps angle_value)
  qed
  have bsame: "bidx (shape angle) [pos, i] = [pos, i]"
    unfolding sh_angle using pos i' by (rule bidx_same2)
  have e3: "\<And>a b. elem pe3 [0, a, b] = elem pe2 [a, b]"
    using u by (auto simp: unsqueeze_def norm_dim_def)
  have even_col: "elem pe2 [pos, 2 * i] = elem pe1 [pos, 2 * i]"
    unfolding assign_cols_elem [OF a2] by (cases i) (simp_all add: mod_Suc)
  have sin_col: "elem pe1 [pos, 2 * i] = fsin (elem angle [pos, i])"
    unfolding assign_cols_elem [OF a1] using bsame by (simp add: tmap_def)
  show "elem (pe m) [0, pos, 2 * i] = Fin (sin (real pos / 1000 powr (real (2 * i) / real_of_int d_model)))"
    unfolding m e3 even_col sin_col angle by simp
  have cos_col: "elem pe2 [pos, 2 * i + 1] = fcos (elem angle [pos, i])"
    unfolding assign_cols_elem [OF a2] using bsame by (simp add: tmap_def)
  show "elem (pe m) [0, pos, 2 * i + 1] = Fin (cos (real pos / 1000 powr (real (2 * i) / real_of_int d_model)))"
    unfolding m e3 cos_col angle by simp
qed

lemma bop_succeeds:
  "broadcast_shapes (shape a) (shape b) = Some sh \<Longrightarrow> \<exists>c. bop f a b = Inr c \<and> shape c = sh"
  by (simp add: bop_def)

lemma expand2_succeeds:
  assumes "shape t = [a, b]" "b = c \<or> b = 1"
  shows "\<exists>r. expand t [int a, int c] = Inr r \<and> shape r = [a, c]"
  using assms by (auto simp: expand_def)

lemma assign_cols_succeeds:
  assumes "shape t = [rows, cols]" "shape src = [rows, n]" "n = (cols - start + 1) div 2 \<or> n = 1"
  shows "\<exists>r. assign_cols t start src = Inr r \<and> shape r = [rows, cols]"
proof -
  obtain s' where "expand src [int rows, int ((cols - start + 1) div 2)] = Inr s'"
    using expand2_succeeds [OF assms(2), of "(cols - start + 1) div 2"] assms(3) by auto
  then show ?thesis
    by (simp add: assign_cols_def assms(1))
qed

lemma pe_init_succeeds:
  assumes "0 \<le> p" "p \<le> 1" "0 \<le> seq_len" "0 < d_model" "even d_model"
  shows "\<exists>m. PositionalEncoding_init d_model seq_len p sample = Inr m"
proof -
  let ?L = "nat seq_len" and ?D = "nat d_model"
  let ?dt = "tmap fexp (mul_scalar (arange (nat d_model) 2) (- (ln 1000 / real_of_int d_model)))"
  have evD: "even ?D" using assms(4,5) by (simp add: even_nat_iff)
  have half: "(?D + 1) div 2 = ?D div 2" using evD by simp
  have nz: "(d_model = 0) = False" using assms(4) by simp
  obtain dr where dr: "Dropout_init p sample = Inr dr"
    using assms(1,2) by (simp add: Dropout_init_def)
  obtain pe0 where pe0: "full [seq_len, d_model] (Fin 0) = Inr pe0" and s0: "shape pe0 = [?L, ?D]"
    using assms(3,4) by (simp add: full_def)
  obtain position where ps: "unsqueeze (arange (nat seq_len) 1) 1 = Inr position"
    and sp: "shape position = [?L, 1]"
    by (simp add: unsqueeze_def norm_dim_def arange_def)
  have sd: "shape ?dt = [(?D + 1) div 2]"
    by (simp add: tmap_def mul_scalar_def arange_def)
  have "broadcast_shapes (shape position) (shape ?dt) = Some [?L, (?D + 1) div 2]"
    unfolding sp sd by (simp add: broadcast_shapes_def bdim_def)
  from bop_succeeds [OF this] obtain angle where an: "bop fmul position ?dt = Inr angle"
    and sa: "shape angle = [?L, (?D + 1) div 2]" by blast
  have ssin: "shape (tmap fsin angle) = [?L, (?D + 1) div 2]"
    and scos: "shape (tmap fcos angle) = [?L, (?D + 1) div 2]"
    using sa by (simp_all add: tmap_def)
  obtain pe1 where a1: "assign_cols pe0 0 (tmap fsin angle) = Inr pe1" and s1: "shape pe1 = [?L, ?D]"
    using assign_cols_succeeds [OF s0 ssin, of 0] by auto
  obtain pe2 where a2: "assign_cols pe1 1 (tmap fcos angle) = Inr pe2" and s2: "shape pe2 = [?L, ?D]"
  proof -
    have "0 < ?D" using assms(4) by simp
    then have "(?D + 1) div 2 = (?D - 1 + 1) div 2" using half by simp
    then show ?thesis
      using assign_cols_succeeds [OF s1 scos, of 1] that by blast
  qed
  obtain pe3 where u: "unsqueeze pe2 0 = Inr pe3"
    by (simp add: unsqueeze_def norm_dim_def)
  show ?thesis
    unfolding PositionalEncoding_init_def
    by (simp only: dr pe0 ps an a1 a2 u nz and_then_def sum.case Let_def if_False) blast
qed

text \<open>
  C6. The table built by the constructor for maximum length \<open>L_max\<close> and width \<open>D\<close>
  has shape \<open>(1, L_max, D)\<close> and holds, for every position \<open>pos < L_max\<close> and every
  even index \<open>2i < D\<close>, the value \<open>sin (pos / 1000^(2i/D))\<close> at index \<open>2i\<close> and, when
  \<open>2i + 1 < D\<close>, \<open>cos (pos / 1000^(2i/D))\<close> at index \<open>2i + 1\<close>: the base of the
  divisor is 1000. The constructor succeeds for every even positive width, every
  non-negative length and every dropout rate in \<open>[0, 1]\<close>. Floats are idealised as reals.
\<close>

theorem positional_table_values:
  "(PositionalEncoding_init d_model seq_len p sample = Inr m \<longrightarrow>
      shape (pe m) = [1, nat seq_len, nat d_model]
      \<and> (\<forall>pos i. pos < nat seq_len \<and> 2 * i < nat d_model \<longrightarrow>
            elem (pe m) [0, pos, 2 * i]
              = Fin (sin (real pos / 1000 powr (real (2 * i) / real_of_int d_model)))
          \<and> (2 * i + 1 < nat d_model \<longrightarrow>
               elem (pe m) [0, pos, 2 * i + 1]
                 = Fin (cos (real pos / 1000 powr (real (2 * i) / real_of_int d_model))))))
   \<and> (0 \<le> p \<and> p \<le> 1 \<and> 0 \<le> seq_len \<and> 0 < d_model \<and> even d_model \<longrightarrow>
        (\<exists>m'. PositionalEncoding_init d_model seq_len p sample = Inr m'))"
proof (intro conjI impI allI)
  assume ok: "PositionalEncoding_init d_model seq_len p sample = Inr m"
  show "shape (pe m) = [1, nat seq_len, nat d_model]"
    using ok by (rule pe_shape)
  fix pos i
  assume r: "pos < nat seq_len \<and> 2 * i < nat d_model"
  show "elem (pe m) [0, pos, 2 * i]
          = Fin (sin (real pos / 1000 powr (real (2 * i) / real_of_int d_model)))"
    using pe_values(1) [OF ok] r by blast
  show "elem (pe m) [0, pos, 2 * i + 1]
          = Fin (cos (real pos / 1000 powr (real (2 * i) / real_of_int d_model)))"
    using pe_values(2) [OF ok] r by blast
next
  assume "0 \<le> p \<and> p \<le> 1 \<and> 0 \<le> seq_len \<and> 0 < d_model \<and> even d_model"
  then show "\<exists>m'. PositionalEncoding_init d_model seq_len p sample = Inr m'"
    using pe_init_succeeds by blast
qed

theorem positional_table_values_witness:
  "\<exists>m. PositionalEncoding_init 2 2 0 (\<lambda>idx. True) = Inr m
     \<and> shape (pe m) = [1, 2, 2]
     \<and> elem (pe m) [0, 1, 0] = Fin (sin 1)
     \<and> elem (pe m) [0, 1, 1] = Fin (cos 1)"
proof -
  obtain m where m: "PositionalEncoding_init 2 2 0 (\<lambda>idx. True) = Inr m"
    using positional_table_values [of 2 2 0 "\<lambda>idx. True"] by auto
  have "shape (pe m) = [1, nat 2, nat 2]"
    and "\<forall>pos i. pos < nat 2 \<and> 2 * i < nat 2 \<longrightarrow>
            elem (pe m) [0, pos, 2 * i]
              = Fin (sin (real pos / 1000 powr (real (2 * i) / real_of_int 2)))
          \<and> (2 * i + 1 < nat 2 \<longrightarrow>
               elem (pe m) [0, pos, 2 * i + 1]
                 = Fin (cos (real pos / 1000 powr (real (2 * i) / real_of_int 2))))"
    using positional_table_values [of 2 2 0 "\<lambda>idx. True" m] m by blast+
  from this(1) this(2) [rule_format, of 1 0] m show ?thesis
    by (intro exI [of _ m]) simp
qed

section \<open>Sequences longer than the positional-encoding table\<close>

lemma bdim_eq_None: "bdim a b = None \<longleftrightarrow> a \<noteq> b \<and> a \<noteq> 1 \<and> b \<noteq> 1"
  by (simp add: bdim_def)

lemma broadcast_shapes3:
  "broadcast_shapes [a, b, c] [a', b', c'] =
     (case bdim c c' of None \<Rightarrow> None | Some z \<Rightarrow>
       (case bdim b b' of None \<Rightarrow> None | Some y \<Rightarrow>
         (case bdim a a' of None \<Rightarrow> None | Some x \<Rightarrow> Some [x, y, z])))"
  by (simp add: broadcast_shapes_def split: option.splits)

lemma pe_forward_fails_iff:
  assumes "shape (pe m) = [1, L, D]" "shape x = [B, T, D]" "L < T"
  shows "isl (PositionalEncoding_forward m x) \<longleftrightarrow> L \<noteq> 1 \<and> T \<noteq> 1"
proof -
  have sl: "slice_dim1 (pe m) T = Inr \<lparr>shape = [1, L, D], elem = elem (pe m)\<rparr>"
    using assms(1,3) by (simp add: slice_dim1_def min_def)
  have st: "shape_at x 1 = Inr T" using assms(2) by (simp add: shape_at_def)
  have bB: "bdim B 1 \<noteq> None" "bdim D D \<noteq> None" by (simp_all add: bdim_def)
  have bs: "broadcast_shapes [B, T, D] [1, L, D] = None \<longleftrightarrow> bdim T L = None"
    unfolding broadcast_shapes3 using bB by (auto split: option.splits)
  have fw: "PositionalEncoding_forward m x =
              and_then (bop fadd x \<lparr>shape = [1, L, D], elem = elem (pe m)\<rparr>)
                (\<lambda>y. Inr (dropout (pe_dropout m) y))"
    by (simp only: PositionalEncoding_forward_def st sl and_then_def sum.case)
  have "isl (PositionalEncoding_forward m x) \<longleftrightarrow> broadcast_shapes [B, T, D] [1, L, D] = None"
    unfolding fw by (simp add: and_then_def bop_def assms(2) split: option.splits)
  then show ?thesis
    unfolding bs bdim_eq_None using assms(3) by auto
qed

text \<open>
  C7, as amended. For a module built for maximum length \<open>L_max\<close> and an input of shape
  \<open>(B, T, D)\<close> with \<open>T > L_max\<close>, the forward pass fails exactly when \<open>L_max\<close> is not
  one and \<open>T\<close> is not one. The slice of the table stops at \<open>L_max\<close> rows, and the
  addition broadcasts: a table of one row is added to every position.
\<close>

theorem pe_forward_beyond_capacity:
  assumes "PositionalEncoding_init d_model seq_len p sample = Inr m"
    and "shape x = [B, T, nat d_model]"
    and "nat seq_len < T"
  shows "isl (PositionalEncoding_forward m x) \<longleftrightarrow> nat seq_len \<noteq> 1 \<and> T \<noteq> 1"
  using pe_forward_fails_iff [OF pe_shape [OF assms(1)] assms(2,3)] .

theorem pe_forward_beyond_capacity_witness:
  "case PositionalEncoding_init 2 2 0 (\<lambda>idx. True) of
     Inl e \<Rightarrow> False
   | Inr m \<Rightarrow> isl (PositionalEncoding_forward m \<lparr>shape = [1, 3, 2], elem = (\<lambda>idx. Fin 0)\<rparr>)"
proof -
  obtain m where m: "PositionalEncoding_init 2 2 0 (\<lambda>idx. True) = Inr m"
    using pe_init_succeeds [of 0 2 2] by auto
  have "isl (PositionalEncoding_forward m \<lparr>shape = [1, 3, 2], elem = (\<lambda>idx. Fin 0)\<rparr>)"
    using pe_forward_beyond_capacity [OF m, of _ 1 3] by simp
  then show ?thesis by (simp add: m)
qed

text \<open>
  A table of one row and an input of two positions: the forward pass returns.
\<close>

theorem pe_forward_single_row_counterexample:
  "case PositionalEncoding_init 2 1 0 (\<lambda>idx. True) of
     Inl e \<Rightarrow> False
   | Inr m \<Rightarrow> \<not> isl (PositionalEncoding_forward m \<lparr>shape = [1, 2, 2], elem = (\<lambda>idx. Fin 0)\<rparr>)"
proof -
  obtain m where m: "PositionalEncoding_init 2 1 0 (\<lambda>idx. True) = Inr m"
    using pe_init_succeeds [of 0 1 2] by auto
  have "shape (pe m) = [1, 1, 2]"
    using pe_shape [OF m] by simp
  then have "\<not> isl (PositionalEncoding_forward m \<lparr>shape = [1, 2, 2], elem = (\<lambda>idx. Fin 0)\<rparr>)"
    using pe_forward_fails_iff [of m 1 2 _ 1 2] by simp
  then show ?thesis by (simp add: m)
qed

section \<open>The sparse mask\<close>

lemma expand4_shape:
  assumes "expand t [int b, h, int n, int n'] = Inr r" "0 \<le> h"
  shows "shape r = [b, nat h, n, n']"
proof -
  have "expand_rev ss zs = Some ds \<Longrightarrow> \<forall>z\<in>set zs. 0 \<le> z \<Longrightarrow> ds = map nat zs" for ss zs ds
    by (induction ss zs arbitrary: ds rule: expand_rev.induct)
       (auto split: if_splits option.splits)
  from this [of "rev (shape t)" "rev [int b, h, int n, int n']"] assms
  show ?thesis
    by (auto simp: expand_def split: option.splits)
qed

lemma build_sparse_mask_succeeds:
  assumes "0 \<le> s_h m"
  shows "\<exists>sm. build_sparse_mask m T B = Inr sm \<and> shape sm = [B, nat (s_h m), T, T]"
proof -
  have "\<exists>sm. build_sparse_mask m T B = Inr sm"
    using assms by (auto simp: build_sparse_mask_def create_sparse_mask_def expand_def Let_def)
  then obtain sm where sm: "build_sparse_mask m T B = Inr sm" by blast
  then have "shape sm = [B, nat (s_h m), T, T]"
    unfolding build_sparse_mask_def Let_def using assms by (rule expand4_shape)
  with sm show ?thesis by blast
qed

lemma build_sparse_mask_elem:
  assumes "build_sparse_mask m T B = Inr sm" "q < T" "k < T" "1 < T"
  shows "elem sm [b, hx, q, k] =
           elem (create_sparse_mask T (s_block_size m) (s_stride m) (s_causal m)) [0, 0, q, k]"
proof -
  have "bidx [1, 1, T, T] [b, hx, q, k] = [0, 0, q, k]"
    using assms(4) by (simp add: bidx_def)
  then show ?thesis
    using expand_elem [OF assms(1) [unfolded build_sparse_mask_def Let_def], of "[b, hx, q, k]"]
    by (simp add: create_sparse_mask_def)
qed

text \<open>
  C2. Under \<open>causal = true\<close>, for every sequence length \<open>T\<close>, block size and stride, the
  mask that the sparse block builds for self-attention is false at every pair of a query
  position \<open>q\<close> and a key position \<open>k\<close> in \<open>[0, T)\<close> with \<open>k > q\<close>, for every batch
  element and every head.
\<close>

theorem causal_sparse_mask_blocks_future:
  assumes "s_causal m" and "0 \<le> s_h m" and "q < T" and "k < T" and "q < k"
  shows "\<exists>am. build_sparse_mask m T B = Inr am
           \<and> shape am = [B, nat (s_h m), T, T]
           \<and> (\<forall>b hx. \<not> elem am [b, hx, q, k])"
proof -
  obtain am where am: "build_sparse_mask m T B = Inr am" "shape am = [B, nat (s_h m), T, T]"
    using build_sparse_mask_succeeds [OF assms(2)] by blast
  have T: "1 < T" using assms(4,5) by simp
  have "\<not> elem am [b, hx, q, k]" for b hx
    unfolding build_sparse_mask_elem [OF am(1) assms(3,4) T]
    using assms(1,5) by (simp add: create_sparse_mask_def lower_triangular_def Let_def)
  with am show ?thesis by blast
qed

theorem causal_sparse_mask_blocks_future_witness:
  "\<exists>am. build_sparse_mask tiny_causal_block 2 1 = Inr am
     \<and> shape am = [1, 1, 2, 2]
     \<and> \<not> elem am [0, 0, 0, 1]"
proof -
  have h: "s_causal tiny_causal_block" "0 \<le> s_h tiny_causal_block" "(0::nat) < 2" "(1::nat) < 2" "(0::nat) < 1"
    by (simp_all add: tiny_causal_block_def tiny_sparse_block_def)
  have n: "nat (s_h tiny_causal_block) = 1"
    by (simp add: tiny_causal_block_def tiny_sparse_block_def)
  show ?thesis
    using causal_sparse_mask_blocks_future [OF h, of 1] unfolding n by auto
qed

section \<open>The value written at masked positions\<close>

lemma dense_masked_score:
  assumes "attention_masked_scores query key (Some mk) = Inr s"
    and "\<not> elem mk (bidx (shape mk) idx)"
  shows "elem s idx = Fin finfo_min"
proof -
  from assms(1) obtain sc where "masked_fill_inplace sc (tmap Not mk) (Fin finfo_min) = Inr s"
    unfolding attention_masked_scores_def by (auto simp: and_then_Inr Let_def)
  then have "bop (\<lambda>x m. if m then Fin finfo_min else x) sc (tmap Not mk) = Inr s"
    by (auto simp: masked_fill_inplace_def masked_fill_def split: if_splits)
  from bop_elem [OF this, of idx] assms(2) show ?thesis
    by (simp add: tmap_def)
qed

lemma sparse_masked_score:
  assumes "compute_masked_scores m q k msk = Inr s"
    and "\<not> elem msk (bidx (shape msk) idx)"
  shows "elem s idx = NInf"
proof -
  from assms(1) obtain sc where "masked_fill sc (tmap Not msk) NInf = Inr s"
    unfolding compute_masked_scores_def by (auto simp: and_then_Inr)
  then have "bop (\<lambda>x m. if m then NInf else x) sc (tmap Not msk) = Inr s"
    by (simp add: masked_fill_def)
  from bop_elem [OF this, of idx] assms(2) show ?thesis
    by (simp add: tmap_def)
qed

lemma transpose_last2:
  "length (shape t) = 4 \<Longrightarrow>
   transpose_t t (- 2) (- 1) = Inr \<lparr>shape = swap (shape t) 2 3, elem = (\<lambda>idx. elem t (swap idx 2 3))\<rparr>"
  by (simp add: transpose_t_def norm_dim_def)

lemma matmul_unit:
  assumes "shape a = [1, 1, 1, 1]" "shape b = [1, 1, 1, 1]"
  shows "\<exists>c. matmul a b = Inr c \<and> shape c = [1, 1, 1, 1]"
  using assms by (simp add: matmul_def matmul_batched_def Let_def broadcast_shapes_def bdim_def)

lemma sparse_scores_defined:
  "\<exists>s. compute_masked_scores tiny_sparse_block (const_tensor [1, 1, 1, 1] (Fin 0))
          (const_tensor [1, 1, 1, 1] (Fin 0)) (const_tensor [1, 1, 1, 1] False) = Inr s"
proof -
  let ?z = "const_tensor [1, 1, 1, 1] (Fin 0)"
  have l: "length (shape ?z) = 4" by (simp add: const_tensor_def)
  obtain c where c: "matmul ?z \<lparr>shape = swap (shape ?z) 2 3, elem = (\<lambda>idx. elem ?z (swap idx 2 3))\<rparr> = Inr c"
    and sc: "shape c = [1, 1, 1, 1]"
    using matmul_unit [of ?z "\<lparr>shape = swap (shape ?z) 2 3, elem = (\<lambda>idx. elem ?z (swap idx 2 3))\<rparr>"]
    by (auto simp: const_tensor_def swap_def)
  have r: "math_sqrt (s_d_k tiny_sparse_block) = Inr 1"
    by (simp add: math_sqrt_def tiny_sparse_block_def)
  have "\<exists>s. masked_fill (div_scalar c 1) (tmap Not (const_tensor [1, 1, 1, 1] False)) NInf = Inr s"
    by (simp add: masked_fill_def bop_def div_scalar_def tmap_def sc const_tensor_def broadcast_shapes_same)
  then show ?thesis
    unfolding compute_masked_scores_def
    by (simp only: transpose_last2 [OF l] c r and_then_def sum.case)
qed

lemma dense_scores_defined:
  "\<exists>s. attention_masked_scores (const_tensor [1, 1, 1, 1] (Fin 0))
          (const_tensor [1, 1, 1, 1] (Fin 0)) (Some (const_tensor [1, 1, 1, 1] False)) = Inr s"
proof -
  let ?z = "const_tensor [1, 1, 1, 1] (Fin 0)"
  have l: "length (shape ?z) = 4" by (simp add: const_tensor_def)
  have d: "shape_at ?z (length (shape ?z) - 1) = Inr 1"
    by (simp add: shape_at_def const_tensor_def)
  obtain c where c: "matmul ?z \<lparr>shape = swap (shape ?z) 2 3, elem = (\<lambda>idx. elem ?z (swap idx 2 3))\<rparr> = Inr c"
    and sc: "shape c = [1, 1, 1, 1]"
    using matmul_unit [of ?z "\<lparr>shape = swap (shape ?z) 2 3, elem = (\<lambda>idx. elem ?z (swap idx 2 3))\<rparr>"]
    by (auto simp: const_tensor_def swap_def)
  have r: "math_sqrt (int 1) = Inr 1"
    by (simp add: math_sqrt_def)
  have "\<exists>s. masked_fill_inplace (div_scalar c 1) (tmap Not (const_tensor [1, 1, 1, 1] False)) (Fin finfo_min) = Inr s"
    by (simp add: masked_fill_inplace_def masked_fill_def bop_def div_scalar_def tmap_def sc
        const_tensor_def broadcast_shapes_same)
  then show ?thesis
    unfolding attention_masked_scores_def
    by (simp only: d transpose_last2 [OF l] c r and_then_def sum.case Let_def option.case)
qed

text \<open>
  C1, at a failing input. One query, one key, one head, and a mask that is false at the
  only position: the sparse variant writes negative infinity there, where the dense
  variant writes the most negative finite value of the dtype.
\<close>

theorem sparse_masked_score_is_negative_infinity:
  "(case compute_masked_scores tiny_sparse_block (const_tensor [1, 1, 1, 1] (Fin 0))
           (const_tensor [1, 1, 1, 1] (Fin 0)) (const_tensor [1, 1, 1, 1] False) of
      Inl e \<Rightarrow> False
    | Inr s \<Rightarrow> elem s [0, 0, 0, 0] = NInf)
   \<and> (case attention_masked_scores (const_tensor [1, 1, 1, 1] (Fin 0))
           (const_tensor [1, 1, 1, 1] (Fin 0)) (Some (const_tensor [1, 1, 1, 1] False)) of
      Inl e \<Rightarrow> False
    | Inr s \<Rightarrow> elem s [0, 0, 0, 0] = Fin finfo_min)"
proof -
  obtain s where s: "compute_masked_scores tiny_sparse_block (const_tensor [1, 1, 1, 1] (Fin 0))
          (const_tensor [1, 1, 1, 1] (Fin 0)) (const_tensor [1, 1, 1, 1] False) = Inr s"
    using sparse_scores_defined by blast
  obtain d where d: "attention_masked_scores (const_tensor [1, 1, 1, 1] (Fin 0))
          (const_tensor [1, 1, 1, 1] (Fin 0)) (Some (const_tensor [1, 1, 1, 1] False)) = Inr d"
    using dense_scores_defined by blast
  have f: "\<not> elem (const_tensor [1, 1, 1, 1] False) (bidx (shape (const_tensor [1, 1, 1, 1] False)) [0, 0, 0, 0])"
    by (simp add: const_tensor_def)
  show ?thesis
    unfolding s d sum.case
    using sparse_masked_score [OF s f] dense_masked_score [OF d f]
    by (intro conjI)
qed

text \<open>
  What the finite substitute protects against: in a row whose scores are all negative
  infinity, the softmax is NaN at every position.
\<close>

lemma fmaximum_all_neg_inf:
  assumes "\<And>k. k < n \<Longrightarrow> f k = NInf"
  shows "fmaximum f n = NInf"
proof -
  have "foldl (\<lambda>acc k. fmax acc (f k)) NInf [0..<m] = NInf" if "m \<le> n" for m
    using that by (induction m) (simp_all add: assms)
  then show ?thesis by (simp add: fmaximum_def)
qed

lemma softmax_of_fully_masked_row:
  assumes "\<And>k. k < lastdim (shape t) \<Longrightarrow> elem t (at_last idx k) = NInf"
    and "elem t idx = NInf"
  shows "elem (softmax t) idx = NaN"
proof -
  have "fmaximum (\<lambda>k. elem t (at_last idx k)) (lastdim (shape t)) = NInf"
    using assms(1) by (rule fmaximum_all_neg_inf)
  then show ?thesis
    by (simp add: softmax_def Let_def assms(2) fsub_def)
qed

section \<open>The residual wrapper\<close>

lemma dropout_shape: "shape (dropout d y) = shape y"
  by (simp add: dropout_def tmap_def)

lemma bop_same_shape:
  assumes "shape b = shape a"
  shows "\<exists>c. bop f a b = Inr c \<and> shape c = shape a
           \<and> (\<forall>idx. list_all2 (<) idx (shape a) \<longrightarrow> elem c idx = f (elem a idx) (elem b idx))"
  by (simp add: bop_def assms broadcast_shapes_same bidx_in_range)

lemma bshape_rev_same: "bshape_rev xs xs = Some xs"
  by (induction xs) (simp_all add: bdim_def)

lemma broadcast_keepdim: "broadcast_shapes (sh @ [d]) (sh @ [Suc 0]) = Some (sh @ [d])"
  by (simp add: broadcast_shapes_def bshape_rev_same bdim_def)

lemma broadcast_vector:
  "broadcast_shapes [d] (sh @ [d]) = Some (sh @ [d])"
  "broadcast_shapes (sh @ [d]) [d] = Some (sh @ [d])"
proof -
  have a: "bshape_rev [] r = Some r" for r by simp
  have b: "bshape_rev r [] = Some r" for r by (cases r) simp_all
  show "broadcast_shapes [d] (sh @ [d]) = Some (sh @ [d])"
    by (simp add: broadcast_shapes_def bdim_def a)
  show "broadcast_shapes (sh @ [d]) [d] = Some (sh @ [d])"
    by (simp add: broadcast_shapes_def bdim_def b)
qed

lemma layer_norm_succeeds:
  assumes "shape x = sh @ [d]" "shape (ln_alpha m) = [d]" "shape (ln_bias m) = [d]"
  shows "\<exists>n. LayerNormalization_forward m x = Inr n \<and> shape n = shape x"
proof -
  have k: "keep_shape (sh @ [d]) = sh @ [1]" by (simp add: keep_shape_def)
  obtain c where c: "bop fsub x (mean_last x) = Inr c" "shape c = sh @ [d]"
    using bop_succeeds [of x "mean_last x" "sh @ [d]" fsub]
    by (auto simp: assms(1) mean_last_def k broadcast_keepdim)
  let ?den = "tmap fsqrt (tmap (\<lambda>v. fadd v (Fin (ln_eps m))) (var_last x))"
  have "shape ?den = sh @ [1]" by (simp add: tmap_def var_last_def assms(1) k)
  then obtain n where n: "bop fdiv c ?den = Inr n" "shape n = sh @ [d]"
    using bop_succeeds [of c ?den "sh @ [d]" fdiv] by (auto simp: c(2) broadcast_keepdim)
  obtain s where s: "bop fmul (ln_alpha m) n = Inr s" "shape s = sh @ [d]"
    using bop_succeeds [of "ln_alpha m" n "sh @ [d]" fmul] by (auto simp: assms(2) n(2) broadcast_vector)
  obtain r where r: "bop fadd s (ln_bias m) = Inr r" "shape r = sh @ [d]"
    using bop_succeeds [of s "ln_bias m" "sh @ [d]" fadd] by (auto simp: assms(3) s(2) broadcast_vector)
  show ?thesis
    unfolding LayerNormalization_forward_def Let_def
    by (simp only: c(1) n(1) s(1) r(1) and_then_def sum.case assms(1)) (simp add: r(2))
qed

text \<open>
  C5. For every input \<open>x\<close> and every sublayer \<open>f\<close>, with \<open>n\<close> the layer
  normalisation of \<open>x\<close> and \<open>y = f n\<close>, the residual wrapper returns
  \<open>x + dropout y\<close>: the sublayer sees the normalised input and its dropped-out output
  is added to the input as it came. When \<open>y\<close> has the shape of \<open>x\<close> the sum exists
  and is taken element by element; an error of the normalisation or of the sublayer is
  the error of the wrapper.
\<close>

theorem residual_adds_sublayer_of_normalised_input:
  "(LayerNormalization_forward (rc_norm m) x = Inr n \<and> sublayer n = Inr y \<longrightarrow>
      ResidualConnection_forward m x sublayer = bop fadd x (dropout (rc_dropout m) y)
      \<and> (shape y = shape x \<longrightarrow>
           (\<exists>r. ResidualConnection_forward m x sublayer = Inr r \<and> shape r = shape x
              \<and> (\<forall>idx. list_all2 (<) idx (shape x) \<longrightarrow>
                    elem r idx = fadd (elem x idx) (elem (dropout (rc_dropout m) y) idx)))))
   \<and> (LayerNormalization_forward (rc_norm m) x = Inl e \<longrightarrow>
        ResidualConnection_forward m x sublayer = Inl e)
   \<and> (LayerNormalization_forward (rc_norm m) x = Inr n \<and> sublayer n = Inl e \<longrightarrow>
        ResidualConnection_forward m x sublayer = Inl e)"
proof (intro conjI impI)
  assume a: "LayerNormalization_forward (rc_norm m) x = Inr n \<and> sublayer n = Inr y"
  then show eq: "ResidualConnection_forward m x sublayer = bop fadd x (dropout (rc_dropout m) y)"
    by (simp add: ResidualConnection_forward_def and_then_def)
  assume "shape y = shape x"
  then have "shape (dropout (rc_dropout m) y) = shape x" by (simp add: dropout_shape)
  from bop_same_shape [OF this, of fadd]
  show "\<exists>r. ResidualConnection_forward m x sublayer = Inr r \<and> shape r = shape x
              \<and> (\<forall>idx. list_all2 (<) idx (shape x) \<longrightarrow>
                    elem r idx = fadd (elem x idx) (elem (dropout (rc_dropout m) y) idx))"
    unfolding eq .
next
  assume "LayerNormalization_forward (rc_norm m) x = Inl e"
  then show "ResidualConnection_forward m x sublayer = Inl e"
    by (simp add: ResidualConnection_forward_def and_then_def)
next
  assume "LayerNormalization_forward (rc_norm m) x = Inr n \<and> sublayer n = Inl e"
  then show "ResidualConnection_forward m x sublayer = Inl e"
    by (simp add: ResidualConnection_forward_def and_then_def)
qed

theorem residual_adds_sublayer_of_normalised_input_witness:
  "\<exists>n r. LayerNormalization_forward (rc_norm tiny_residual) (const_tensor [1] (Fin 5)) = Inr n
     \<and> ResidualConnection_forward tiny_residual (const_tensor [1] (Fin 5)) add_two = Inr r
     \<and> shape r = [1]
     \<and> elem r [0] = fadd (Fin 5) (fadd (elem n [0]) (Fin 2))"
proof -
  let ?x = "const_tensor [1] (Fin 5) :: fl tensor"
  have sx: "shape ?x = [] @ [1]" by (simp add: const_tensor_def)
  obtain n where n: "LayerNormalization_forward (rc_norm tiny_residual) ?x = Inr n"
    and sn: "shape n = shape ?x"
    using layer_norm_succeeds [OF sx, of "rc_norm tiny_residual"]
    by (auto simp: tiny_residual_def const_tensor_def)
  let ?y = "tmap (\<lambda>v. fadd v (Fin 2)) n"
  have y: "add_two n = Inr ?y" by (simp add: add_two_def)
  have sy: "shape ?y = shape ?x" by (simp add: tmap_def sn)
  have "shape ?y = shape ?x \<longrightarrow>
           (\<exists>r. ResidualConnection_forward tiny_residual ?x add_two = Inr r \<and> shape r = shape ?x
              \<and> (\<forall>idx. list_all2 (<) idx (shape ?x) \<longrightarrow>
                    elem r idx = fadd (elem ?x idx) (elem (dropout (rc_dropout tiny_residual) ?y) idx)))"
    using residual_adds_sublayer_of_normalised_input [of tiny_residual ?x n add_two ?y] n y
    by blast
  with sy obtain r where r: "ResidualConnection_forward tiny_residual ?x add_two = Inr r"
    "shape r = shape ?x"
    and el: "\<forall>idx. list_all2 (<) idx (shape ?x) \<longrightarrow>
                    elem r idx = fadd (elem ?x idx) (elem (dropout (rc_dropout tiny_residual) ?y) idx)"
    by blast
  have "list_all2 (<) [0] (shape ?x)" by (simp add: const_tensor_def)
  with el have "elem r [0] = fadd (elem ?x [0]) (elem (dropout (rc_dropout tiny_residual) ?y) [0])"
    by blast
  then have "elem r [0] = fadd (Fin 5) (fadd (elem n [0]) (Fin 2))"
    by (simp add: const_tensor_def tiny_residual_def no_dropout_def dropout_def tmap_def)
  with n r show ?thesis by (auto simp: const_tensor_def)
qed

section \<open>Construction and its errors\<close>

lemma failure_None: "failure r = None \<longleftrightarrow> (\<exists>v. r = Inr v)"
  by (cases r) (simp_all add: failure_def)

lemma failure_simps: "failure (Inr v) = None" "failure (Inl e) = Some e"
  by (simp_all add: failure_def)

lemma failure_and_then:
  "failure (and_then m f) = (case m of Inl e \<Rightarrow> Some e | Inr v \<Rightarrow> failure (f v))"
  by (cases m) (simp_all add: failure_def and_then_def)

lemma failure_and_then_cong:
  assumes "failure m = failure m'" and "\<And>v v'. failure (f v) = failure (f' v')"
  shows "failure (and_then m f) = failure (and_then m' f')"
  using assms by (cases m; cases m') (simp_all add: failure_def and_then_def)

lemma failure_and_then_same:
  assumes "\<And>v. failure (f v) = failure (f' v)"
  shows "failure (and_then m f) = failure (and_then m f')"
  using assms by (cases m) (simp_all add: failure_def and_then_def)

lemma failure_map_e_Cons:
  "failure (map_e f (x # xs)) = (case failure (f x) of Some e \<Rightarrow> Some e | None \<Rightarrow> failure (map_e f xs))"
  by (cases "f x"; cases "map_e f xs") (simp_all add: failure_def and_then_def)

lemma failure_map_e_cong:
  assumes "\<And>x. failure (f x) = failure (f' x)"
  shows "failure (map_e f xs) = failure (map_e f' xs)"
proof (induction xs)
  case Nil
  show ?case by (simp add: failure_def)
next
  case (Cons x xs)
  then show ?case by (simp only: failure_map_e_Cons assms)
qed

lemma sparse_init_failure:
  "failure (SparseMultiHeadAttentionBlock_init d h p bs st c g path)
     = failure (SparseMultiHeadAttentionBlock_init d h p bs' st' c g path)"
  unfolding SparseMultiHeadAttentionBlock_init_def
  by (simp add: failure_and_then failure_simps split: sum.splits)

lemma encoder_block_init_failure:
  "failure (EncoderBlock_init d sa ff p g i) = failure (EncoderBlock_init d sa' ff' p g i)"
  unfolding EncoderBlock_init_def
  by (simp add: failure_and_then failure_simps split: sum.splits)

lemma decoder_block_init_failure:
  "failure (DecoderBlock_init d sa ca ff p g i) = failure (DecoderBlock_init d sa' ca' ff' p g i)"
  unfolding DecoderBlock_init_def
  by (simp add: failure_and_then failure_simps split: sum.splits)

lemma encoder_init_failure: "failure (Encoder_init d ls) = failure (Encoder_init d ls')"
  unfolding Encoder_init_def
  by (simp add: failure_and_then failure_simps split: sum.splits)

lemma decoder_init_failure: "failure (Decoder_init d ls) = failure (Decoder_init d ls')"
  unfolding Decoder_init_def
  by (simp add: failure_and_then failure_simps split: sum.splits)

lemma build_failure_independent:
  "failure (build_sparse_transformer sv tv sn tn d n h p dff bs st g)
     = failure (build_sparse_transformer sv tv sn tn d n h p dff bs' st' g)"
  unfolding build_sparse_transformer_def
  apply (rule failure_and_then_same)
  apply (rule failure_and_then_same)
  apply (rule failure_and_then_same)
  apply (rule failure_and_then_same)
  apply (rule failure_and_then_cong)
   apply (rule failure_map_e_cong)
   apply (rule failure_and_then_cong)
    apply (rule sparse_init_failure)
   apply (rule failure_and_then_cong)
    apply (rule refl)
   apply (rule encoder_block_init_failure)
  apply (rule failure_and_then_cong)
   apply (rule failure_map_e_cong)
   apply (rule failure_and_then_cong)
    apply (rule sparse_init_failure)
   apply (rule failure_and_then_cong)
    apply (rule refl)
   apply (rule failure_and_then_cong)
    apply (rule refl)
   apply (rule decoder_block_init_failure)
  apply (rule failure_and_then_cong)
   apply (rule encoder_init_failure)
  apply (rule failure_and_then_cong)
   apply (rule decoder_init_failure)
  apply (rule failure_and_then_cong)
   apply (rule refl)
  apply (simp add: failure_def)
  done

lemma failure_and_then_None:
  assumes "failure m = None" and "\<And>v. failure (f v) = None"
  shows "failure (and_then m f) = None"
  using assms by (cases m) (simp_all add: failure_def and_then_def)

lemma failure_map_e_None:
  assumes "\<And>x. failure (f x) = None"
  shows "failure (map_e f xs) = None"
proof (induction xs)
  case Nil
  show ?case by (simp add: failure_simps)
next
  case (Cons x xs)
  then show ?case by (simp only: failure_map_e_Cons assms option.case)
qed

lemma linear_init_succeeds:
  "0 \<le> a \<Longrightarrow> 0 \<le> b \<Longrightarrow> failure (Linear_init a b w bv) = None"
  by (simp add: Linear_init_def failure_simps)

lemma dropout_init_succeeds: "0 \<le> p \<Longrightarrow> p \<le> 1 \<Longrightarrow> failure (Dropout_init p sample) = None"
  by (simp add: Dropout_init_def failure_simps)

lemma layer_norm_init_succeeds: "0 \<le> d \<Longrightarrow> failure (LayerNormalization_init d eps) = None"
  by (simp add: LayerNormalization_init_def full_def and_then_def failure_simps)

lemma residual_init_succeeds:
  "0 \<le> d \<Longrightarrow> 0 \<le> p \<Longrightarrow> p \<le> 1 \<Longrightarrow> failure (ResidualConnection_init d p sample) = None"
  unfolding ResidualConnection_init_def
  by (intro failure_and_then_None dropout_init_succeeds layer_norm_init_succeeds)
     (simp_all add: failure_simps)

lemma sparse_init_succeeds:
  assumes "0 \<le> d" "h \<noteq> 0" "d mod h = 0" "0 \<le> p" "p \<le> 1"
  shows "failure (SparseMultiHeadAttentionBlock_init d h p bs st c g path) = None"
  unfolding SparseMultiHeadAttentionBlock_init_def
  by (simp only: assms(2,3) if_False simp_thms)
     (intro failure_and_then_None linear_init_succeeds dropout_init_succeeds assms failure_simps)

lemma mha_init_succeeds:
  assumes "0 \<le> d" "h \<noteq> 0" "d mod h = 0" "0 \<le> p" "p \<le> 1"
  shows "failure (MultiHeadAttentionBlock_init d h p g path) = None"
  unfolding MultiHeadAttentionBlock_init_def
  by (simp only: assms(2,3) if_False simp_thms)
     (intro failure_and_then_None linear_init_succeeds dropout_init_succeeds assms failure_simps)

lemma ff_init_succeeds:
  assumes "0 \<le> d" "0 \<le> dff" "0 \<le> p" "p \<le> 1"
  shows "failure (FeedForwardBlock_init d dff p g path) = None"
  unfolding FeedForwardBlock_init_def
  by (intro failure_and_then_None linear_init_succeeds dropout_init_succeeds assms failure_simps)

lemma encoder_block_init_succeeds:
  assumes "0 \<le> d" "0 \<le> p" "p \<le> 1"
  shows "failure (EncoderBlock_init d sa ff p g i) = None"
  unfolding EncoderBlock_init_def
  by (intro failure_and_then_None failure_map_e_None residual_init_succeeds assms failure_simps)

lemma decoder_block_init_succeeds:
  assumes "0 \<le> d" "0 \<le> p" "p \<le> 1"
  shows "failure (DecoderBlock_init d sa ca ff p g i) = None"
  unfolding DecoderBlock_init_def
  by (intro failure_and_then_None failure_map_e_None residual_init_succeeds assms failure_simps)

lemma input_embeddings_init_succeeds:
  "0 \<le> d \<Longrightarrow> 0 \<le> v \<Longrightarrow> failure (InputEmbeddings_init d v w) = None"
  by (simp add: InputEmbeddings_init_def failure_simps)

lemma positional_encoding_init_succeeds:
  assumes "0 \<le> p" "p \<le> 1" "0 \<le> seq_len" "0 < d" "even d"
  shows "failure (PositionalEncoding_init d seq_len p sample) = None"
  using pe_init_succeeds [OF assms] by (simp add: failure_None)

lemma build_succeeds:
  assumes "0 \<le> sv" "0 \<le> tv" "0 \<le> sn" "0 \<le> tn" "0 < d" "even d" "h \<noteq> 0" "d mod h = 0"
    "0 \<le> p" "p \<le> 1" "0 \<le> dff"
  shows "\<exists>t. build_sparse_transformer sv tv sn tn d n h p dff bs st g = Inr t"
proof -
  have d: "0 \<le> d" using assms(5) by simp
  have "failure (build_sparse_transformer sv tv sn tn d n h p dff bs st g) = None"
    unfolding build_sparse_transformer_def Encoder_init_def Decoder_init_def ProjectionLayer_init_def
    by (intro failure_and_then_None failure_map_e_None input_embeddings_init_succeeds
          positional_encoding_init_succeeds sparse_init_succeeds mha_init_succeeds ff_init_succeeds
          encoder_block_init_succeeds decoder_block_init_succeeds layer_norm_init_succeeds
          linear_init_succeeds assms d failure_simps)
  then show ?thesis by (simp add: failure_None)
qed

text \<open>
  C4, as amended. Construction does not check \<open>block_size\<close> or \<open>stride\<close>: the error
  it ends in, if any, is the same for every two pairs of values of \<open>block_size\<close> and
  \<open>stride\<close>, non-positive ones included. With non-negative vocabulary sizes, maximum
  lengths and feed-forward width, an even positive \<open>d_model\<close>, a non-zero number of
  heads dividing it and a dropout rate in \<open>[0, 1]\<close>, construction succeeds whatever
  \<open>block_size\<close> and \<open>stride\<close> are.
\<close>

theorem construction_ignores_block_size_and_stride:
  "failure (build_sparse_transformer sv tv sn tn d n h p dff bs st g)
     = failure (build_sparse_transformer sv tv sn tn d n h p dff bs' st' g)
   \<and> (0 \<le> sv \<and> 0 \<le> tv \<and> 0 \<le> sn \<and> 0 \<le> tn \<and> 0 < d \<and> even d \<and> h \<noteq> 0 \<and> d mod h = 0
        \<and> 0 \<le> p \<and> p \<le> 1 \<and> 0 \<le> dff \<longrightarrow>
      (\<exists>t. build_sparse_transformer sv tv sn tn d n h p dff bs st g = Inr t))"
proof (intro conjI impI)
  show "failure (build_sparse_transformer sv tv sn tn d n h p dff bs st g)
          = failure (build_sparse_transformer sv tv sn tn d n h p dff bs' st' g)"
    by (rule build_failure_independent)
  assume "0 \<le> sv \<and> 0 \<le> tv \<and> 0 \<le> sn \<and> 0 \<le> tn \<and> 0 < d \<and> even d \<and> h \<noteq> 0 \<and> d mod h = 0
        \<and> 0 \<le> p \<and> p \<le> 1 \<and> 0 \<le> dff"
  then show "\<exists>t. build_sparse_transformer sv tv sn tn d n h p dff bs st g = Inr t"
    by (intro build_succeeds) simp_all
qed

theorem construction_ignores_block_size_and_stride_witness:
  "\<exists>t. build_sparse_transformer 5 5 3 3 4 2 2 (1 / 10) 8 (- 3) 0 zero_rng = Inr t"
proof -
  have "(0::int) \<le> 5 \<and> (0::int) \<le> 5 \<and> (0::int) \<le> 3 \<and> (0::int) \<le> 3 \<and> (0::int) < 4 \<and> even (4::int)
          \<and> (2::int) \<noteq> 0 \<and> (4::int) mod 2 = 0 \<and> (0::real) \<le> 1 / 10 \<and> (1::real) / 10 \<le> 1 \<and> (0::int) \<le> 8"
    by simp
  from this construction_ignores_block_size_and_stride
         [of 5 5 3 3 4 2 2 "1 / 10" 8 "- 3" 0 zero_rng, THEN conjunct2]
  show ?thesis by (rule rev_mp)
qed

text \<open>Block size zero and stride minus one: construction returns a model.\<close>

theorem construction_accepts_non_positive_counterexample:
  "\<not> isl (build_sparse_transformer 10 10 4 4 2 1 1 0 4 0 (- 1) zero_rng)"
proof -
  have "\<exists>t. build_sparse_transformer 10 10 4 4 2 1 1 0 4 0 (- 1) zero_rng = Inr t"
    by (rule build_succeeds) simp_all
  then show ?thesis by auto
qed

section \<open>Order of the decoder's sublayers\<close>

lemma map_e_Inr: "map_e f xs = Inr ys \<Longrightarrow> list_all2 (\<lambda>x y. f x = Inr y) xs ys"
  by (induction xs arbitrary: ys) (auto simp: and_then_Inr)

lemma decoder_block_forward_unfolded:
  assumes "d_residual_connection blk = [r0, r1, r2]"
  shows "DecoderBlock_forward blk x enc src tgt =
           and_then (ResidualConnection_forward r0 x
              (\<lambda>y. SparseMultiHeadAttentionBlock_forward (d_self_attention_block blk) y y y tgt)) (\<lambda>x1.
           and_then (ResidualConnection_forward r1 x1
              (\<lambda>y. MultiHeadAttentionBlock_forward (d_cross_attention_block blk) y enc enc src)) (\<lambda>x2.
           ResidualConnection_forward r2 x2 (FeedForwardBlock_forward (d_feed_forward_block blk))))"
proof -
  have m: "module_at [r0, r1, r2] 0 = Inr r0" "module_at [r0, r1, r2] 1 = Inr r1"
    "module_at [r0, r1, r2] 2 = Inr r2"
    by (simp_all add: module_at_def)
  show ?thesis
    unfolding DecoderBlock_forward_def assms
    by (simp only: m and_then_def sum.case)
qed

lemma decoder_layers_foldl:
  "and_then acc (\<lambda>x. decoder_layers layers x enc src tgt) =
     foldl (\<lambda>a layer. and_then a (\<lambda>x'. DecoderBlock_forward layer x' enc src tgt)) acc layers"
proof (induction layers arbitrary: acc)
  case Nil
  show ?case by (cases acc) (simp_all add: and_then_def)
next
  case (Cons layer layers)
  have "and_then acc (\<lambda>x. decoder_layers (layer # layers) x enc src tgt) =
          and_then (and_then acc (\<lambda>x'. DecoderBlock_forward layer x' enc src tgt))
            (\<lambda>x. decoder_layers layers x enc src tgt)"
    by (cases acc) (simp_all add: and_then_def)
  then show ?case by (simp add: Cons.IH)
qed

lemma decoder_forward_foldl:
  "Decoder_forward dec x enc src tgt =
     and_then (foldl (\<lambda>a layer. and_then a (\<lambda>x'. DecoderBlock_forward layer x' enc src tgt))
                 (Inr x) (dec_layers dec))
       (LayerNormalization_forward (dec_norm dec))"
proof -
  have "decoder_layers (dec_layers dec) x enc src tgt =
          and_then (Inr x) (\<lambda>x. decoder_layers (dec_layers dec) x enc src tgt)"
    by (simp add: and_then_def)
  then show ?thesis
    unfolding Decoder_forward_def by (simp only: decoder_layers_foldl)
qed

lemma decoder_block_init_fields:
  assumes "DecoderBlock_init d sa ca ff p g i = Inr blk"
  shows "length (d_residual_connection blk) = 3"
    and "d_self_attention_block blk = sa"
    and "d_cross_attention_block blk = ca"
    and "d_feed_forward_block blk = ff"
proof -
  from assms obtain rs where
    rs: "map_e (\<lambda>j. ResidualConnection_init d p (drop_sample g (Dec_res i j))) [0..<3] = Inr rs"
    and blk: "blk = \<lparr>d_self_attention_block = sa, d_cross_attention_block = ca,
                      d_feed_forward_block = ff, d_residual_connection = rs\<rparr>"
    unfolding DecoderBlock_init_def by (auto simp: and_then_Inr)
  have "length rs = length [0..<3]"
    using list_all2_lengthD [OF map_e_Inr [OF rs]] by simp
  then show "length (d_residual_connection blk) = 3" by (simp add: blk)
  show "d_self_attention_block blk = sa" "d_cross_attention_block blk = ca"
    "d_feed_forward_block blk = ff"
    by (simp_all add: blk)
qed

lemma sparse_init_causal:
  "SparseMultiHeadAttentionBlock_init d h p bs st c g path = Inr sa \<Longrightarrow> s_causal sa = c"
  unfolding SparseMultiHeadAttentionBlock_init_def
  by (auto simp: and_then_Inr split: if_splits)

lemma built_decoder_layers:
  assumes "build_sparse_transformer sv tv sn tn d n h p dff bs st g = Inr t"
  shows "length (dec_layers (t_decoder t)) = nat n"
    and "\<forall>layer \<in> set (dec_layers (t_decoder t)).
           length (d_residual_connection layer) = 3 \<and> s_causal (d_self_attention_block layer)"
proof -
  let ?item = "\<lambda>i.
        and_then (SparseMultiHeadAttentionBlock_init d h p bs st True g (Dec_self i))
          (\<lambda>decoder_self_attention_block.
        and_then (MultiHeadAttentionBlock_init d h p g (Dec_cross i))
          (\<lambda>decoder_cross_attention_block.
        and_then (FeedForwardBlock_init d dff p g (Dec_ff i)) (\<lambda>feed_forward_block.
        DecoderBlock_init d decoder_self_attention_block decoder_cross_attention_block
          feed_forward_block p g i)))"
  from assms obtain blocks dec where
    m: "map_e ?item [0..<nat n] = Inr blocks"
    and di: "Decoder_init d blocks = Inr dec"
    and td: "t_decoder t = dec"
    unfolding build_sparse_transformer_def by (auto simp: and_then_Inr)
  have dl: "dec_layers dec = blocks"
    using di unfolding Decoder_init_def by (auto simp: and_then_Inr)
  have la: "list_all2 (\<lambda>i layer. ?item i = Inr layer) [0..<nat n] blocks"
    using m by (rule map_e_Inr)
  show "length (dec_layers (t_decoder t)) = nat n"
    using list_all2_lengthD [OF la] by (simp add: td dl)
  show "\<forall>layer \<in> set (dec_layers (t_decoder t)).
           length (d_residual_connection layer) = 3 \<and> s_causal (d_self_attention_block layer)"
  proof
    fix layer
    assume "layer \<in> set (dec_layers (t_decoder t))"
    then have "layer \<in> set blocks" by (simp add: td dl)
    then obtain i where "?item i = Inr layer"
      using la by (auto simp: list_all2_conv_all_nth in_set_conv_nth)
    then obtain sa ca ff where
      sa: "SparseMultiHeadAttentionBlock_init d h p bs st True g (Dec_self i) = Inr sa"
      and b: "DecoderBlock_init d sa ca ff p g i = Inr layer"
      by (auto simp: and_then_Inr)
    show "length (d_residual_connection layer) = 3 \<and> s_causal (d_self_attention_block layer)"
      using decoder_block_init_fields(1,2) [OF b] sparse_init_causal [OF sa] by simp
  qed
qed

text \<open>
  C8. A decoder block with its three residual wrappers applies them in this order: the
  first around the sparse self-attention on the target mask, the second around the
  dense cross-attention with the encoder output as keys and values, the third around
  the feed-forward block; each step takes the result of the one before. The decoder
  runs its blocks from first to last, each on the result of the previous one, and
  applies its one layer normalisation to the result of the last. In a model returned
  by \<open>build_sparse_transformer\<close> the decoder has \<open>N\<close> blocks, each with exactly three
  residual wrappers and a causal sparse self-attention.
\<close>

theorem decoder_applies_sublayers_in_order:
  "(d_residual_connection blk = [r0, r1, r2] \<longrightarrow>
      DecoderBlock_forward blk x enc src tgt =
        and_then (ResidualConnection_forward r0 x
           (\<lambda>y. SparseMultiHeadAttentionBlock_forward (d_self_attention_block blk) y y y tgt)) (\<lambda>x1.
        and_then (ResidualConnection_forward r1 x1
           (\<lambda>y. MultiHeadAttentionBlock_forward (d_cross_attention_block blk) y enc enc src)) (\<lambda>x2.
        ResidualConnection_forward r2 x2 (FeedForwardBlock_forward (d_feed_forward_block blk)))))
   \<and> Decoder_forward dec x enc src tgt =
        and_then (foldl (\<lambda>a layer. and_then a (\<lambda>x'. DecoderBlock_forward layer x' enc src tgt))
                    (Inr x) (dec_layers dec))
          (LayerNormalization_forward (dec_norm dec))
   \<and> (build_sparse_transformer sv tv sn tn d n h p dff bs st g = Inr t \<longrightarrow>
        length (dec_layers (t_decoder t)) = nat n
        \<and> (\<forall>layer \<in> set (dec_layers (t_decoder t)).
             length (d_residual_connection layer) = 3 \<and> s_causal (d_self_attention_block layer)))"
proof (intro conjI impI)
  assume "d_residual_connection blk = [r0, r1, r2]"
  then show "DecoderBlock_forward blk x enc src tgt =
        and_then (ResidualConnection_forward r0 x
           (\<lambda>y. SparseMultiHeadAttentionBlock_forward (d_self_attention_block blk) y y y tgt)) (\<lambda>x1.
        and_then (ResidualConnection_forward r1 x1
           (\<lambda>y. MultiHeadAttentionBlock_forward (d_cross_attention_block blk) y enc enc src)) (\<lambda>x2.
        ResidualConnection_forward r2 x2 (FeedForwardBlock_forward (d_feed_forward_block blk))))"
    by (rule decoder_block_forward_unfolded)
next
  show "Decoder_forward dec x enc src tgt =
        and_then (foldl (\<lambda>a layer. and_then a (\<lambda>x'. DecoderBlock_forward layer x' enc src tgt))
                    (Inr x) (dec_layers dec))
          (LayerNormalization_forward (dec_norm dec))"
    by (rule decoder_forward_foldl)
next
  assume b: "build_sparse_transformer sv tv sn tn d n h p dff bs st g = Inr t"
  show "length (dec_layers (t_decoder t)) = nat n"
    using b by (rule built_decoder_layers(1))
  show "\<forall>layer \<in> set (dec_layers (t_decoder t)).
             length (d_residual_connection layer) = 3 \<and> s_causal (d_self_attention_block layer)"
    using b by (rule built_decoder_layers(2))
qed

theorem decoder_applies_sublayers_in_order_witness:
  "\<exists>t. build_sparse_transformer 5 5 3 3 4 2 2 (1 / 10) 8 2 1 zero_rng = Inr t
     \<and> length (dec_layers (t_decoder t)) = 2
     \<and> list_all (\<lambda>layer. length (d_residual_connection layer) = 3
                           \<and> s_causal (d_self_attention_block layer)) (dec_layers (t_decoder t))"
proof -
  obtain t where t: "build_sparse_transformer 5 5 3 3 4 2 2 (1 / 10) 8 2 1 zero_rng = Inr t"
    using build_succeeds [of 5 5 3 3 4 2 "1 / 10" 8 2 2 1 zero_rng] by auto
  have "build_sparse_transformer 5 5 3 3 4 2 2 (1 / 10) 8 2 1 zero_rng = Inr t \<longrightarrow>
        length (dec_layers (t_decoder t)) = nat 2
        \<and> (\<forall>layer \<in> set (dec_layers (t_decoder t)).
             length (d_residual_connection layer) = 3 \<and> s_causal (d_self_attention_block layer))"
    by (rule decoder_applies_sublayers_in_order [THEN conjunct2, THEN conjunct2])
  with t show ?thesis
    by (intro exI [of _ t]) (simp add: list_all_iff)
qed

section \<open>The mask of the sparse forward pass\<close>

lemma external_mask_expanded:
  assumes "(if length (shape mk) = 3 then unsqueeze mk 1 else Inr mk) = Inr mk1"
    and "expand mk1 sizes = Inr mk2"
  shows "elem mk2 [b, hx, q, k] = external_mask_at mk b hx q k"
proof (cases "length (shape mk) = 3")
  case True
  then have "\<exists>s0 s1 s2. shape mk = [s0, s1, s2]"
    by (auto simp: numeral_3_eq_3 length_Suc_conv)
  then obtain s0 s1 s2 where sh: "shape mk = [s0, s1, s2]" by blast
  have mk1: "shape mk1 = [s0, 1, s1, s2]" "\<And>idx. elem mk1 idx = elem mk (take 1 idx @ drop 2 idx)"
    using assms(1) True sh by (auto simp: unsqueeze_def norm_dim_def numeral_2_eq_2)
  have "bidx [s0, 1, s1, s2] [b, hx, q, k] = hd (bidx [s0, s1, s2] [b, q, k]) # 0 # tl (bidx [s0, s1, s2] [b, q, k])"
    by (simp add: bidx_def)
  moreover have "length (bidx [s0, s1, s2] [b, q, k]) = 3" by (simp add: bidx_def)
  ultimately have "take 1 (bidx [s0, 1, s1, s2] [b, hx, q, k]) @ drop 2 (bidx [s0, 1, s1, s2] [b, hx, q, k])
        = bidx [s0, s1, s2] [b, q, k]"
    by (simp add: bidx_def)
  then show ?thesis
    unfolding expand_elem [OF assms(2)] mk1 external_mask_at_def sh by simp
next
  case False
  then have "mk1 = mk" using assms(1) by simp
  then show ?thesis
    unfolding expand_elem [OF assms(2)] external_mask_at_def using False by simp
qed

lemma attn_mask_Some:
  assumes "attn_mask m B T (Some mk) = Inr am" and "0 \<le> s_h m"
  shows "\<exists>sm. build_sparse_mask m T B = Inr sm
           \<and> shape am = [B, nat (s_h m), T, T]
           \<and> (\<forall>b<B. \<forall>hx<nat (s_h m). \<forall>q<T. \<forall>k<T.
                 elem am [b, hx, q, k] = (elem sm [b, hx, q, k] \<and> external_mask_at mk b hx q k))"
proof -
  from assms(1) obtain sm mk1 mk2 where
    sm: "build_sparse_mask m T B = Inr sm"
    and u: "(if length (shape mk) = 3 then unsqueeze mk 1 else Inr mk) = Inr mk1"
    and e: "expand mk1 [int B, s_h m, int T, int T] = Inr mk2"
    and a: "bop (\<and>) sm mk2 = Inr am"
    unfolding attn_mask_def by (auto simp: and_then_Inr)
  have ssm: "shape sm = [B, nat (s_h m), T, T]"
    using build_sparse_mask_succeeds [OF assms(2), of T B] sm by auto
  have smk: "shape mk2 = [B, nat (s_h m), T, T]"
    using e assms(2) by (rule expand4_shape)
  have sam: "shape am = [B, nat (s_h m), T, T]"
    using a by (auto simp: bop_def ssm smk broadcast_shapes_same split: option.splits)
  have "elem am [b, hx, q, k] = (elem sm [b, hx, q, k] \<and> external_mask_at mk b hx q k)"
    if "b < B" "hx < nat (s_h m)" "q < T" "k < T" for b hx q k
  proof -
    have "bidx [B, nat (s_h m), T, T] [b, hx, q, k] = [b, hx, q, k]"
      using that by (intro bidx_in_range) simp
    then show ?thesis
      by (simp add: bop_elem [OF a] ssm smk external_mask_expanded [OF u e])
  qed
  then have "\<forall>b<B. \<forall>hx<nat (s_h m). \<forall>q<T. \<forall>k<T.
                 elem am [b, hx, q, k] = (elem sm [b, hx, q, k] \<and> external_mask_at mk b hx q k)"
    by simp
  with sm sam show ?thesis by (intro exI [of _ sm] conjI)
qed

lemma expand_rev_ok:
  "list_all2 (\<lambda>s z. z = int s \<or> (s = 1 \<and> 0 \<le> z)) ss zs \<Longrightarrow> expand_rev ss zs = Some (map nat zs)"
  by (induction ss zs rule: list_all2_induct) auto

lemma expand4_succeeds:
  assumes "shape t = [B, 1, T, T] \<or> shape t = [B, 1, 1, T]" and "0 \<le> h"
  shows "\<exists>r. expand t [int B, h, int T, int T] = Inr r"
proof -
  have "list_all2 (\<lambda>s z. z = int s \<or> (s = 1 \<and> 0 \<le> z)) (rev (shape t)) (rev [int B, h, int T, int T])"
    using assms by auto
  from expand_rev_ok [OF this] show ?thesis
    by (simp add: expand_def)
qed

lemma attn_mask_succeeds:
  assumes "0 \<le> s_h m" and "shape mk = [B, 1, T, T] \<or> shape mk = [B, T, T] \<or> shape mk = [B, 1, 1, T]"
  shows "\<exists>am. attn_mask m B T (Some mk) = Inr am"
proof -
  obtain sm where sm: "build_sparse_mask m T B = Inr sm" "shape sm = [B, nat (s_h m), T, T]"
    using build_sparse_mask_succeeds [OF assms(1)] by blast
  obtain mk1 where u: "(if length (shape mk) = 3 then unsqueeze mk 1 else Inr mk) = Inr mk1"
    and s1: "shape mk1 = [B, 1, T, T] \<or> shape mk1 = [B, 1, 1, T]"
    using assms(2) by (auto simp: unsqueeze_def norm_dim_def)
  obtain mk2 where e: "expand mk1 [int B, s_h m, int T, int T] = Inr mk2"
    using expand4_succeeds [OF s1 assms(1)] by blast
  have s2: "shape mk2 = [B, nat (s_h m), T, T]"
    using e assms(1) by (rule expand4_shape)
  obtain am where a: "bop (\<and>) sm mk2 = Inr am"
    by (simp add: bop_def sm(2) s2 broadcast_shapes_same)
  show ?thesis
    unfolding attn_mask_def by (simp only: sm(1) u e a and_then_def sum.case option.case) blast
qed

lemma sparse_forward_unfolded:
  assumes "shape q = [B, T, D]"
  shows "SparseMultiHeadAttentionBlock_forward m q k v msk =
           and_then (compute_qkv m q) (\<lambda>(q', k', v').
           and_then (attn_mask m B T msk) (\<lambda>am.
           and_then (compute_attention m q' k' v' am) (\<lambda>attn_out.
           output_projection m attn_out)))"
  by (simp add: SparseMultiHeadAttentionBlock_forward_def assms)

text \<open>
  C3. The forward pass of the sparse block, on a query of shape \<open>(B, T, D)\<close>, hands
  to \<open>compute_attention\<close> the mask \<open>attn_mask\<close>, and the scores are filled wherever
  that mask is false. With a non-null external mask, \<open>attn_mask\<close> has shape
  \<open>(B, h, T, T)\<close> and is, at every position, the logical AND of the structural sparse
  mask and the external mask replicated over the grid; the replication changes no
  value: a mask of shape \<open>(B, 1, T, T)\<close>, \<open>(B, T, T)\<close> or \<open>(B, 1, 1, T)\<close> is read
  at \<open>[b, 0, q, k]\<close>, \<open>[b, q, k]\<close> or \<open>[b, 0, 0, k]\<close> for every head, and for these
  shapes the combination succeeds. With a null external mask the structural mask alone
  is used.
\<close>

theorem attn_mask_is_and_of_sparse_and_external:
  assumes "0 \<le> s_h m"
  shows "(shape q = [B, T, D] \<longrightarrow>
            SparseMultiHeadAttentionBlock_forward m q k v msk =
              and_then (compute_qkv m q) (\<lambda>(q', k', v').
              and_then (attn_mask m B T msk) (\<lambda>am.
              and_then (compute_attention m q' k' v' am) (\<lambda>attn_out.
              output_projection m attn_out))))
       \<and> compute_attention m qh kh vh cm =
            and_then (compute_masked_scores m qh kh cm) (\<lambda>scores.
              matmul (dropout (s_dropout m) (softmax scores)) vh)
       \<and> (compute_masked_scores m qh kh cm = Inr sc \<and> \<not> elem cm (bidx (shape cm) idx) \<longrightarrow>
            elem sc idx = NInf)
       \<and> attn_mask m B T None = build_sparse_mask m T B
       \<and> (attn_mask m B T (Some mk) = Inr am \<longrightarrow>
            (\<exists>sm. build_sparse_mask m T B = Inr sm
               \<and> shape am = [B, nat (s_h m), T, T]
               \<and> (\<forall>b<B. \<forall>hx<nat (s_h m). \<forall>q<T. \<forall>k<T.
                     elem am [b, hx, q, k] = (elem sm [b, hx, q, k] \<and> external_mask_at mk b hx q k))))
       \<and> (shape mk = [B, 1, T, T] \<or> shape mk = [B, T, T] \<or> shape mk = [B, 1, 1, T] \<longrightarrow>
            (\<exists>am'. attn_mask m B T (Some mk) = Inr am'))
       \<and> (\<forall>b<B. \<forall>q<T. \<forall>k<T. \<forall>hx.
            (shape mk = [B, 1, T, T] \<longrightarrow> external_mask_at mk b hx q k = elem mk [b, 0, q, k])
          \<and> (shape mk = [B, T, T] \<longrightarrow> external_mask_at mk b hx q k = elem mk [b, q, k])
          \<and> (shape mk = [B, 1, 1, T] \<longrightarrow> external_mask_at mk b hx q k = elem mk [b, 0, 0, k]))"
proof (intro conjI)
  show "shape q = [B, T, D] \<longrightarrow>
            SparseMultiHeadAttentionBlock_forward m q k v msk =
              and_then (compute_qkv m q) (\<lambda>(q', k', v').
              and_then (attn_mask m B T msk) (\<lambda>am.
              and_then (compute_attention m q' k' v' am) (\<lambda>attn_out.
              output_projection m attn_out)))"
    by (rule impI) (rule sparse_forward_unfolded)
  show "compute_attention m qh kh vh cm =
            and_then (compute_masked_scores m qh kh cm) (\<lambda>scores.
              matmul (dropout (s_dropout m) (softmax scores)) vh)"
    by (simp add: compute_attention_def Let_def)
  show "compute_masked_scores m qh kh cm = Inr sc \<and> \<not> elem cm (bidx (shape cm) idx) \<longrightarrow>
            elem sc idx = NInf"
    using sparse_masked_score [of m qh kh cm sc idx] by (rule_tac impI) simp
  show "attn_mask m B T None = build_sparse_mask m T B"
    by (cases "build_sparse_mask m T B") (simp_all add: attn_mask_def and_then_def)
  show "attn_mask m B T (Some mk) = Inr am \<longrightarrow>
            (\<exists>sm. build_sparse_mask m T B = Inr sm
               \<and> shape am = [B, nat (s_h m), T, T]
               \<and> (\<forall>b<B. \<forall>hx<nat (s_h m). \<forall>q<T. \<forall>k<T.
                     elem am [b, hx, q, k] = (elem sm [b, hx, q, k] \<and> external_mask_at mk b hx q k)))"
  proof (rule impI)
    assume a: "attn_mask m B T (Some mk) = Inr am"
    show "\<exists>sm. build_sparse_mask m T B = Inr sm
               \<and> shape am = [B, nat (s_h m), T, T]
               \<and> (\<forall>b<B. \<forall>hx<nat (s_h m). \<forall>q<T. \<forall>k<T.
                     elem am [b, hx, q, k] = (elem sm [b, hx, q, k] \<and> external_mask_at mk b hx q k))"
      by (rule attn_mask_Some [OF a assms])
  qed
  show "shape mk = [B, 1, T, T] \<or> shape mk = [B, T, T] \<or> shape mk = [B, 1, 1, T] \<longrightarrow>
            (\<exists>am'. attn_mask m B T (Some mk) = Inr am')"
    by (rule impI) (rule attn_mask_succeeds [OF assms])
  show "\<forall>b<B. \<forall>q<T. \<forall>k<T. \<forall>hx.
            (shape mk = [B, 1, T, T] \<longrightarrow> external_mask_at mk b hx q k = elem mk [b, 0, q, k])
          \<and> (shape mk = [B, T, T] \<longrightarrow> external_mask_at mk b hx q k = elem mk [b, q, k])
          \<and> (shape mk = [B, 1, 1, T] \<longrightarrow> external_mask_at mk b hx q k = elem mk [b, 0, 0, k])"
    by (auto simp: external_mask_at_def bidx_def)
qed

text \<open>
  Two heads, two positions, block size one and stride two, so that the structural mask
  is the diagonal, and a padding mask of shape \<open>(1, 1, 1, 2)\<close> that hides the second
  key. In the second head the combined mask is true at \<open>(0, 0)\<close>, false at \<open>(1, 1)\<close>
  (allowed by the structure, hidden by the padding) and false at \<open>(1, 0)\<close> (allowed by
  the padding, not by the structure).
\<close>

theorem attn_mask_is_and_of_sparse_and_external_witness:
  "\<exists>am. attn_mask two_head_block 1 2 (Some key_padding_mask) = Inr am
     \<and> shape am = [1, 2, 2, 2]
     \<and> elem am [0, 1, 0, 0] \<and> \<not> elem am [0, 1, 1, 1] \<and> \<not> elem am [0, 1, 1, 0]
     \<and> SparseMultiHeadAttentionBlock_forward two_head_block (const_tensor [1, 2, 2] (Fin 0))
          (const_tensor [1, 2, 2] (Fin 0)) (const_tensor [1, 2, 2] (Fin 0)) (Some key_padding_mask) =
        and_then (compute_qkv two_head_block (const_tensor [1, 2, 2] (Fin 0))) (\<lambda>(q', k', v').
        and_then (Inr am) (\<lambda>cm.
        and_then (compute_attention two_head_block q' k' v' cm) (\<lambda>attn_out.
        output_projection two_head_block attn_out)))"
proof -
  let ?m = two_head_block and ?mk = key_padding_mask
  let ?x = "const_tensor [1, 2, 2] (Fin 0) :: fl tensor"
  have h: "0 \<le> s_h ?m" by (simp add: two_head_block_def)
  have n: "nat (s_h ?m) = 2" by (simp add: two_head_block_def)
  have s: "shape ?mk = [1, 1, 1, 2]" by (simp add: key_padding_mask_def)
  have sx: "shape ?x = [1, 2, 2]" by (simp add: const_tensor_def)
  note c1 = attn_mask_is_and_of_sparse_and_external
              [OF h, where q = "?x" and B = 1 and T = 2 and D = 2 and k = "?x" and v = "?x"
                 and msk = "Some ?mk", THEN conjunct1]
  have fw: "SparseMultiHeadAttentionBlock_forward ?m ?x ?x ?x (Some ?mk) =
        and_then (compute_qkv ?m ?x) (\<lambda>(q', k', v').
        and_then (attn_mask ?m 1 2 (Some ?mk)) (\<lambda>cm.
        and_then (compute_attention ?m q' k' v' cm) (\<lambda>attn_out.
        output_projection ?m attn_out)))"
    using c1 sx by (rule mp)
  have "shape ?mk = [1, 1, 2, 2] \<or> shape ?mk = [1, 2, 2] \<or> shape ?mk = [1, 1, 1, 2] \<longrightarrow>
          (\<exists>am'. attn_mask ?m 1 2 (Some ?mk) = Inr am')"
    by (rule attn_mask_is_and_of_sparse_and_external
          [OF h, where B = 1 and T = 2 and mk = "?mk",
           THEN conjunct2, THEN conjunct2, THEN conjunct2, THEN conjunct2, THEN conjunct2,
           THEN conjunct1])
  with s obtain am where am: "attn_mask ?m 1 2 (Some ?mk) = Inr am" by blast
  have "attn_mask ?m 1 2 (Some ?mk) = Inr am \<longrightarrow>
          (\<exists>sm. build_sparse_mask ?m 2 1 = Inr sm
             \<and> shape am = [1, 2, 2, 2]
             \<and> (\<forall>b<1. \<forall>hx<2. \<forall>q<2. \<forall>k<2.
                   elem am [b, hx, q, k] = (elem sm [b, hx, q, k] \<and> external_mask_at ?mk b hx q k)))"
    by (rule attn_mask_is_and_of_sparse_and_external
          [OF h, where B = 1 and T = 2 and mk = "?mk" and am = am, unfolded n,
           THEN conjunct2, THEN conjunct2, THEN conjunct2, THEN conjunct2, THEN conjunct1])
  with am obtain sm where sm: "build_sparse_mask ?m 2 1 = Inr sm"
    and sam: "shape am = [1, 2, 2, 2]"
    and all: "\<forall>b<1. \<forall>hx<2. \<forall>q<2. \<forall>k<2.
                   elem am [b, hx, q, k] = (elem sm [b, hx, q, k] \<and> external_mask_at ?mk b hx q k)"
    by blast
  have "\<forall>b<1. \<forall>q<2. \<forall>k<2. \<forall>hx.
            (shape ?mk = [1, 1, 2, 2] \<longrightarrow> external_mask_at ?mk b hx q k = elem ?mk [b, 0, q, k])
          \<and> (shape ?mk = [1, 2, 2] \<longrightarrow> external_mask_at ?mk b hx q k = elem ?mk [b, q, k])
          \<and> (shape ?mk = [1, 1, 1, 2] \<longrightarrow> external_mask_at ?mk b hx q k = elem ?mk [b, 0, 0, k])"
    by (rule attn_mask_is_and_of_sparse_and_external
          [OF h, where B = 1 and T = 2 and mk = "?mk",
           THEN conjunct2, THEN conjunct2, THEN conjunct2, THEN conjunct2, THEN conjunct2,
           THEN conjunct2])
  with s have ext: "external_mask_at ?mk 0 hx q k = elem ?mk [0, 0, 0, k]" if "q < 2" "k < 2" for hx q k
    using that by simp
  have st: "elem sm [0, 1, q, k] =
              elem (create_sparse_mask 2 (s_block_size ?m) (s_stride ?m) (s_causal ?m)) [0, 0, q, k]"
    if "q < 2" "k < 2" for q k
    using build_sparse_mask_elem [OF sm that] by simp
  have v00: "elem am [0, 1, 0, 0]"
    using all [rule_format, of 0 1 0 0] ext [of 0 0 1] st [of 0 0]
    by (simp add: create_sparse_mask_def same_block_def strided_def two_head_block_def
        key_padding_mask_def)
  have v11: "\<not> elem am [0, 1, 1, 1]"
    using all [rule_format, of 0 1 1 1] ext [of 1 1 1]
    by (simp add: key_padding_mask_def)
  have v10: "\<not> elem am [0, 1, 1, 0]"
    using all [rule_format, of 0 1 1 0] st [of 1 0]
    by (simp add: create_sparse_mask_def same_block_def strided_def two_head_block_def)
  show ?thesis
    using am sam v00 v11 v10 fw by (intro exI [of _ am]) (simp only: simp_thms)
qed

section \<open>The sparse block ignores its key and value arguments\<close>

text \<open>
  C10. Two runs of the forward pass of the sparse self-attention block with the same
  query argument, the same mask and the same dropout sample return the same result,
  whatever key and value arguments are passed: the block computes its queries, keys and
  values from the query argument alone.
\<close>

theorem sparse_forward_ignores_key_value:
  "SparseMultiHeadAttentionBlock_forward m q k v msk =
   SparseMultiHeadAttentionBlock_forward m q k' v' msk"
  by (simp add: SparseMultiHeadAttentionBlock_forward_def)

end
